theory Spec2Isabelle
  imports Complex_Main
begin

section \<open>Arithmetic and tensors\<close>

text \<open>
  The saliency engine of \<^verbatim>\<open>maps.py\<close> and \<^verbatim>\<open>misc.py\<close> computes on PyTorch tensors of
  floating-point numbers. What an addition, a logarithm or a mean over a dimension
  returns depends on the number format, its rounding and the order of summation, and
  none of it is written in these two files. The functions below therefore take the
  arithmetic as a parameter: a record of the operations on tensor elements of some
  type \<open>'a\<close>. Every theorem about a function that is stated for an arbitrary record holds
  for the arithmetic the program runs on, whatever its rounding.

  \<open>f_lit\<close> turns a Python number into an element; \<open>f_mean\<close>, \<open>f_std\<close>, \<open>f_max\<close> and
  \<open>f_min\<close> reduce the list of elements that \<^verbatim>\<open>torch.mean\<close>, \<^verbatim>\<open>torch.std\<close>, \<^verbatim>\<open>torch.max\<close> and
  \<^verbatim>\<open>torch.min\<close> reduce; \<open>f_square\<close> is \<^verbatim>\<open>pow(2.0)\<close>; \<open>f_ge0\<close> is the test \<open>std \<ge> 0\<close> of
  \<^verbatim>\<open>torch.normal\<close>; \<open>py_add\<close> is the addition of two Python numbers.
\<close>

record 'a arith =
  f_lit :: "real \<Rightarrow> 'a"
  f_add :: "'a \<Rightarrow> 'a \<Rightarrow> 'a"
  f_sub :: "'a \<Rightarrow> 'a \<Rightarrow> 'a"
  f_mul :: "'a \<Rightarrow> 'a \<Rightarrow> 'a"
  f_div :: "'a \<Rightarrow> 'a \<Rightarrow> 'a"
  f_log :: "'a \<Rightarrow> 'a"
  f_log2 :: "'a \<Rightarrow> 'a"
  f_exp :: "'a \<Rightarrow> 'a"
  f_sqrt :: "'a \<Rightarrow> 'a"
  f_erf :: "'a \<Rightarrow> 'a"
  f_relu :: "'a \<Rightarrow> 'a"
  f_square :: "'a \<Rightarrow> 'a"
  f_mean :: "'a list \<Rightarrow> 'a"
  f_std :: "'a list \<Rightarrow> 'a"
  f_max :: "'a list \<Rightarrow> 'a"
  f_min :: "'a list \<Rightarrow> 'a"
  f_ge0 :: "'a \<Rightarrow> bool"
  py_add :: "real \<Rightarrow> real \<Rightarrow> real"

text \<open>
  A tensor is its shape and its elements in row-major order, as a contiguous PyTorch
  tensor stores them. A well-formed tensor holds as many elements as its shape says.
\<close>

record 'a tensor =
  shape :: "nat list"
  elems :: "'a list"

definition wf_tensor :: "'a tensor \<Rightarrow> bool" where
  "wf_tensor t = (length (elems t) = prod_list (shape t))"

definition t_map :: "('a \<Rightarrow> 'a) \<Rightarrow> 'a tensor \<Rightarrow> 'a tensor" where
  "t_map f t = \<lparr>shape = shape t, elems = map f (elems t)\<rparr>"

text \<open>An elementwise operation on two tensors of one shape (the result has the shape of
  the first).\<close>

definition t_zip :: "('a \<Rightarrow> 'a \<Rightarrow> 'a) \<Rightarrow> 'a tensor \<Rightarrow> 'a tensor \<Rightarrow> 'a tensor" where
  "t_zip f a b = \<lparr>shape = shape a, elems = map2 f (elems a) (elems b)\<rparr>"

definition zeros :: "'a arith \<Rightarrow> nat list \<Rightarrow> 'a tensor" where
  "zeros A sh = \<lparr>shape = sh, elems = replicate (prod_list sh) (f_lit A 0)\<rparr>"

text \<open>
  A reduction over dimension 1 of a tensor of shape \<open>[B, C, d\<^sub>2, ...]\<close>: the result has
  shape \<open>[B, d\<^sub>2, ...]\<close>, and its element at \<open>(b, r)\<close> is the reduction of the \<open>C\<close> elements
  at \<open>(b, c, r)\<close>, where \<open>r\<close> runs over the \<open>n\<close> positions of the trailing dimensions.
  \<open>channel x i\<close> lists the \<open>C\<close> elements that meet at position \<open>i = b * n + r\<close> of the
  result.
\<close>

definition channel :: "'a tensor \<Rightarrow> nat \<Rightarrow> 'a list" where
  "channel x i =
     (let C = shape x ! 1; n = prod_list (drop 2 (shape x))
      in map (\<lambda>c. elems x ! (((i div n) * C + c) * n + i mod n)) [0..<C])"

definition reduce_dim1 :: "('a list \<Rightarrow> 'a) \<Rightarrow> 'a tensor \<Rightarrow> 'a tensor" where
  "reduce_dim1 f x =
     (let B = shape x ! 0; rest = drop 2 (shape x)
      in \<lparr>shape = B # rest,
          elems = map (\<lambda>i. f (channel x i)) [0..<B * prod_list rest]\<rparr>)"

section \<open>Python values and errors\<close>

datatype error = AssertionError | TypeError | IndexError | RuntimeError

text \<open>What a Python variable that is expected to hold a tensor may hold: \<^verbatim>\<open>None\<close>, a
  tensor, or a list of tensors.\<close>

datatype 'a pydata = DNone | DTensor "'a tensor" | DList "'a tensor list"

section \<open>The scale maps of maps.py\<close>

definition eps :: real where
  "eps = 1 / 10000000"

text \<open>
  \<^verbatim>\<open>SMOEScaleMap.forward\<close>: after the two assertions and the optional ReLU,
  \<^verbatim>\<open>x = x + 0.0000001; m = torch.mean(x,dim=1);
  k = torch.log2(m) - torch.mean(torch.log2(x),dim=1); th = k * m\<close>.
\<close>

definition SMOEScaleMap_forward :: "'a arith \<Rightarrow> bool \<Rightarrow> 'a pydata \<Rightarrow> error + 'a tensor" where
  "SMOEScaleMap_forward A run_relu d =
     (case d of
        DTensor x0 \<Rightarrow>
          if \<not> 2 < length (shape x0) then Inl AssertionError
          else
            let x = (if run_relu then t_map (f_relu A) x0 else x0);
                x = t_map (\<lambda>v. f_add A v (f_lit A eps)) x;
                m = reduce_dim1 (f_mean A) x;
                k = t_zip (f_sub A) (t_map (f_log2 A) m)
                      (reduce_dim1 (f_mean A) (t_map (f_log2 A) x));
                th = t_zip (f_mul A) k m
            in Inr th
      | _ \<Rightarrow> Inl AssertionError)"

text \<open>\<^verbatim>\<open>StdMap.forward\<close>: \<^verbatim>\<open>x = torch.std(x,dim=1)\<close>.\<close>

definition StdMap_forward :: "'a arith \<Rightarrow> 'a pydata \<Rightarrow> error + 'a tensor" where
  "StdMap_forward A d =
     (case d of
        DTensor x \<Rightarrow>
          if \<not> 2 < length (shape x) then Inl AssertionError
          else Inr (reduce_dim1 (f_std A) x)
      | _ \<Rightarrow> Inl AssertionError)"

text \<open>The three constants that \<^verbatim>\<open>TruncNormalEntMap.__init__\<close> stores, as the source writes
  them.\<close>

definition c1 :: real where
  "c1 = 3989422804014327 / 10 ^ 16"

definition c2 :: real where
  "c2 = 14142135623730951 / 10 ^ 16"

definition c3 :: real where
  "c3 = 4132731354122493 / 10 ^ 15"

text \<open>\<^verbatim>\<open>_compute_alpha(mean, std, a=0)\<close>: \<^verbatim>\<open>alpha = (a - mean)/std\<close>.\<close>

definition compute_alpha :: "'a arith \<Rightarrow> 'a tensor \<Rightarrow> 'a tensor \<Rightarrow> real \<Rightarrow> 'a tensor" where
  "compute_alpha A mean std a =
     t_zip (f_div A) (t_map (\<lambda>m. f_sub A (f_lit A a) m) mean) std"

text \<open>\<^verbatim>\<open>_compute_pdf(eta)\<close>: \<^verbatim>\<open>pdf = self.c1 * torch.exp(-0.5*eta.pow(2.0))\<close>.\<close>

definition compute_pdf :: "'a arith \<Rightarrow> 'a tensor \<Rightarrow> 'a tensor" where
  "compute_pdf A eta =
     t_map (\<lambda>v. f_mul A (f_lit A c1) (f_exp A (f_mul A (f_lit A (- (1 / 2))) (f_square A v)))) eta"

text \<open>\<^verbatim>\<open>_compute_cdf(eta)\<close>: \<^verbatim>\<open>e = torch.erf(eta/self.c2); cdf = 0.5 * (1.0 + e)\<close>.\<close>

definition compute_cdf :: "'a arith \<Rightarrow> 'a tensor \<Rightarrow> 'a tensor" where
  "compute_cdf A eta =
     t_map (\<lambda>v. f_mul A (f_lit A (1 / 2))
                   (f_add A (f_lit A 1) (f_erf A (f_div A v (f_lit A c2))))) eta"

text \<open>
  \<^verbatim>\<open>TruncNormalEntMap.forward\<close>:
  \<^verbatim>\<open>m = torch.mean(x,dim=1); s = torch.std(x,dim=1); a = self._compute_alpha(m, s);
  pdf = self._compute_pdf(a); cdf = self._compute_cdf(a) + 0.0000001; Z = 1.0 - cdf;
  T1 = torch.log(self.c3*s*Z); T2 = (a*pdf)/(2.0*Z); ent = T1 + T2\<close>.
\<close>

definition TruncNormalEntMap_forward :: "'a arith \<Rightarrow> 'a pydata \<Rightarrow> error + 'a tensor" where
  "TruncNormalEntMap_forward A d =
     (case d of
        DTensor x \<Rightarrow>
          if \<not> 2 < length (shape x) then Inl AssertionError
          else
            let m = reduce_dim1 (f_mean A) x;
                s = reduce_dim1 (f_std A) x;
                a = compute_alpha A m s 0;
                pdf = compute_pdf A a;
                cdf = t_map (\<lambda>v. f_add A v (f_lit A eps)) (compute_cdf A a);
                Z = t_map (\<lambda>v. f_sub A (f_lit A 1) v) cdf;
                T1 = t_map (f_log A) (t_zip (f_mul A) (t_map (\<lambda>v. f_mul A (f_lit A c3) v) s) Z);
                T2 = t_zip (f_div A) (t_zip (f_mul A) a pdf) (t_map (\<lambda>v. f_mul A (f_lit A 2) v) Z);
                ent = t_zip (f_add A) T1 T2
            in Inr ent
      | _ \<Rightarrow> Inl AssertionError)"

section \<open>Normalize2D\<close>

text \<open>
  An elementwise operation of a tensor of shape \<open>[s0, n]\<close> with a column of shape
  \<open>[s0, 1]\<close>, which PyTorch broadcasts along dimension 1: element \<open>(b, j)\<close> of the first
  meets element \<open>b\<close> of the column.
\<close>

definition t_rowwise :: "('a \<Rightarrow> 'a \<Rightarrow> 'a) \<Rightarrow> 'a tensor \<Rightarrow> 'a tensor \<Rightarrow> 'a tensor" where
  "t_rowwise f x col =
     (let n = shape x ! 1
      in \<lparr>shape = shape x,
          elems = map (\<lambda>i. f (elems x ! i) (elems col ! (i div n))) [0..<length (elems x)]\<rparr>)"

text \<open>A reshape that keeps the number of elements only relabels the row-major data.\<close>

definition t_view :: "nat list \<Rightarrow> 'a tensor \<Rightarrow> 'a tensor" where
  "t_view sh t = \<lparr>shape = sh, elems = elems t\<rparr>"

text \<open>
  \<^verbatim>\<open>Normalize2D.forward\<close>:
  \<^verbatim>\<open>x = x.reshape(s0,s1*s2); m = x.mean(dim=1); m = m.reshape(m.size()[0],1);
  s = x.std(dim=1); s = s.reshape(s.size()[0],1);
  x = 0.5*(1.0 + torch.erf((x-m)/(s*torch.sqrt(torch.tensor(2.0))))); x = x.reshape(s0,s1,s2)\<close>.
\<close>

definition Normalize2D_forward :: "'a arith \<Rightarrow> 'a pydata \<Rightarrow> error + 'a tensor" where
  "Normalize2D_forward A d =
     (case d of
        DTensor x0 \<Rightarrow>
          if length (shape x0) \<noteq> 3 then Inl AssertionError
          else
            let s0 = shape x0 ! 0; s1 = shape x0 ! 1; s2 = shape x0 ! 2;
                x = t_view [s0, s1 * s2] x0;
                m = reduce_dim1 (f_mean A) x;
                m = t_view [shape m ! 0, 1] m;
                s = reduce_dim1 (f_std A) x;
                s = t_view [shape s ! 0, 1] s;
                x = t_map (\<lambda>v. f_mul A (f_lit A (1 / 2)) (f_add A (f_lit A 1) (f_erf A v)))
                      (t_rowwise (f_div A) (t_rowwise (f_sub A) x m)
                         (t_map (\<lambda>v. f_mul A v (f_sqrt A (f_lit A 2))) s));
                x = t_view [s0, s1, s2] x
            in Inr x
      | _ \<Rightarrow> Inl AssertionError)"


section \<open>CombineSaliencyMaps\<close>

text \<open>
  What a caller may pass as \<^verbatim>\<open>weights\<close>: \<^verbatim>\<open>None\<close>, a Python number, a Python list of
  numbers, or a one-dimensional tensor (or NumPy array) of numbers.
\<close>

datatype pyweights = WNone | WNumber real | WList "real list" | WTensor "real list"

record combiner =
  weights :: "real list"
  weight_sum :: real
  map_num :: int
  output_size :: "int list"
  resize_mode :: string
  magnitude :: bool

text \<open>
  The three branches of \<^verbatim>\<open>__init__\<close> on \<^verbatim>\<open>weights\<close>:
  \<^verbatim>\<open>if weights is None: self.weights = [1.0 for _ in range(map_num)]\<close>,
  \<^verbatim>\<open>elif len(weights) == 1: assert(weights > 0); self.weights = [weights for _ in range(map_num)]\<close>,
  \<^verbatim>\<open>else: assert(len(weights) == map_num); self.weights = weights\<close>.
  \<^verbatim>\<open>len\<close> of a number raises TypeError. In the second branch \<^verbatim>\<open>weights\<close> is still the
  whole argument: for a list, \<^verbatim>\<open>weights > 0\<close> compares a list with an int, which raises
  TypeError; for a one-element tensor the comparison is elementwise and the assertion
  tests its only element.
\<close>

fun init_weights :: "pyweights \<Rightarrow> int \<Rightarrow> error + real list" where
  "init_weights WNone map_num' = Inr (replicate (nat map_num') 1)"
| "init_weights (WNumber w) map_num' = Inl TypeError"
| "init_weights (WList ws) map_num' =
     (if length ws = 1 then Inl TypeError
      else if int (length ws) \<noteq> map_num' then Inl AssertionError
      else Inr ws)"
| "init_weights (WTensor ws) map_num' =
     (if length ws = 1 then
        (if \<not> 0 < ws ! 0 then Inl AssertionError else Inr (replicate (nat map_num') (ws ! 0)))
      else if int (length ws) \<noteq> map_num' then Inl AssertionError
      else Inr ws)"

text \<open>
  \<^verbatim>\<open>CombineSaliencyMaps.__init__\<close>: the assertions on \<^verbatim>\<open>output_size\<close> and \<^verbatim>\<open>map_num\<close>, the
  weights, and \<^verbatim>\<open>self.weight_sum = 0; for w in self.weights: self.weight_sum += w\<close>.
\<close>

definition CombineSaliencyMaps_init ::
    "'a arith \<Rightarrow> int list \<Rightarrow> int \<Rightarrow> pyweights \<Rightarrow> string \<Rightarrow> bool \<Rightarrow> error + combiner" where
  "CombineSaliencyMaps_init A output_size' map_num' weights' resize_mode' magnitude' =
     (if length output_size' \<noteq> 2 then Inl AssertionError
      else if \<not> 0 < output_size' ! 0 then Inl AssertionError
      else if \<not> 0 < output_size' ! 1 then Inl AssertionError
      else if \<not> 0 < map_num' then Inl AssertionError
      else
        case init_weights weights' map_num' of
          Inl e \<Rightarrow> Inl e
        | Inr ws \<Rightarrow>
            Inr \<lparr>weights = ws, weight_sum = foldl (py_add A) 0 ws, map_num = map_num',
                 output_size = output_size', resize_mode = resize_mode',
                 magnitude = magnitude'\<rparr>)"

text \<open>A reshape raises RuntimeError when the new shape holds another number of elements.\<close>

definition reshape :: "nat list \<Rightarrow> 'a tensor \<Rightarrow> error + 'a tensor" where
  "reshape sh t = (if prod_list sh = length (elems t) then Inr (t_view sh t) else Inl RuntimeError)"

text \<open>
  \<^verbatim>\<open>torch.stack(ww,dim=1)\<close> of tensors of one shape \<open>b # rest\<close>: the result has shape
  \<open>b # length ww # rest\<close>, and its block \<open>(k, l)\<close> is block \<open>k\<close> of the \<open>l\<close>-th tensor.
\<close>

definition stack_dim1 :: "'a tensor list \<Rightarrow> 'a tensor" where
  "stack_dim1 ws =
     (let sh = shape (hd ws); b = hd sh; n = prod_list (tl sh)
      in \<lparr>shape = b # length ws # tl sh,
          elems = concat (map (\<lambda>k. concat (map (\<lambda>w. take n (drop (k * n) (elems w))) ws)) [0..<b])\<rparr>)"

text \<open>
  The loop of \<^verbatim>\<open>forward\<close> over \<^verbatim>\<open>range(len(smaps))\<close>, with the accumulator \<^verbatim>\<open>cm\<close> and the list
  \<^verbatim>\<open>ww\<close>. The source writes the loop twice, without and with the line \<^verbatim>\<open>w = w*w\<close>; the
  flag \<open>square\<close> selects it. \<^verbatim>\<open>nn.functional.interpolate\<close> is the parameter \<open>interp\<close>,
  called with the reshaped map, \<^verbatim>\<open>self.output_size\<close> and \<^verbatim>\<open>self.resize_mode\<close>.
  \<^verbatim>\<open>cm += (w * self.weights[i])\<close> adds in place: here \<open>cm\<close> has shape \<open>[bn, 1, H, W]\<close>; a
  resized map of any other shape makes either this addition or the later
  \<^verbatim>\<open>torch.stack\<close> raise RuntimeError, and nothing of the loop is visible in between.
\<close>

fun combine_loop ::
    "'a arith \<Rightarrow> ('a tensor \<Rightarrow> nat list \<Rightarrow> string \<Rightarrow> error + 'a tensor) \<Rightarrow> combiner \<Rightarrow> bool \<Rightarrow>
     'a tensor list \<Rightarrow> nat list \<Rightarrow> 'a tensor \<times> 'a tensor list \<Rightarrow>
     error + 'a tensor \<times> 'a tensor list" where
  "combine_loop A interp self square smaps [] (cm, ww) = Inr (cm, ww)"
| "combine_loop A interp self square smaps (i # is) (cm, ww) =
     (let wsz = shape (smaps ! i)
      in if length wsz < 3 then Inl IndexError
         else
           case reshape [wsz ! 0, 1, wsz ! 1, wsz ! 2] (smaps ! i) of
             Inl e \<Rightarrow> Inl e
           | Inr w \<Rightarrow>
               (case interp w (map nat (output_size self)) (resize_mode self) of
                  Inl e \<Rightarrow> Inl e
                | Inr w \<Rightarrow>
                    let w = (if square then t_zip (f_mul A) w w else w)
                    in if length (weights self) \<le> i then Inl IndexError
                       else if shape w \<noteq> shape cm then Inl RuntimeError
                       else combine_loop A interp self square smaps is
                              (t_zip (f_add A) cm
                                 (t_map (\<lambda>v. f_mul A v (f_lit A (weights self ! i))) w),
                               ww @ [w])))"

text \<open>
  \<^verbatim>\<open>CombineSaliencyMaps.forward\<close>: the assertions, \<^verbatim>\<open>bn = smaps[0].size()[0]\<close>,
  \<^verbatim>\<open>cm = torch.zeros((bn, 1, self.output_size[0], self.output_size[1]))\<close>, the loop,
  \<^verbatim>\<open>cm = cm / self.weight_sum\<close>, and the reshapes of \<^verbatim>\<open>cm\<close> and of the stacked \<^verbatim>\<open>ww\<close>.
\<close>

definition CombineSaliencyMaps_forward ::
    "'a arith \<Rightarrow> ('a tensor \<Rightarrow> nat list \<Rightarrow> string \<Rightarrow> error + 'a tensor) \<Rightarrow> combiner \<Rightarrow>
     'a tensor list \<Rightarrow> error + 'a tensor \<times> 'a tensor" where
  "CombineSaliencyMaps_forward A interp self smaps =
     (if int (length smaps) \<noteq> map_num self then Inl AssertionError
      else if smaps = [] then Inl IndexError
      else if length (shape (smaps ! 0)) \<noteq> 3 then Inl AssertionError
      else if length (output_size self) < 2 then Inl IndexError
      else
        let bn = shape (smaps ! 0) ! 0;
            oh = nat (output_size self ! 0);
            ow = nat (output_size self ! 1);
            cm = zeros A [bn, 1, oh, ow]
        in case combine_loop A interp self (magnitude self) smaps [0..<length smaps] (cm, []) of
             Inl e \<Rightarrow> Inl e
           | Inr (cm, ww) \<Rightarrow>
               let cm = t_map (\<lambda>v. f_div A v (f_lit A (weight_sum self))) cm;
                   cm = t_view [bn, oh, ow] cm;
                   ww = stack_dim1 ww;
                   ww = t_view [bn, nat (map_num self), oh, ow] ww
               in Inr (cm, ww))"

text \<open>
  Bilinear resizing of a tensor of shape \<open>[N, C, H, W]\<close> to \<open>[N, C, oh, ow]\<close> without
  corner alignment, as \<^verbatim>\<open>nn.functional.interpolate(w, size, mode='bilinear',
  align_corners=False)\<close> computes it: output position \<open>d\<close> reads the input at
  \<open>max 0 ((d + 1/2) * (in / out) - 1/2)\<close>, between the two neighbouring input positions,
  and weighs all four neighbours, also those of weight zero.
\<close>

definition source_index :: "nat \<Rightarrow> nat \<Rightarrow> nat \<Rightarrow> real" where
  "source_index in_size out_size d =
     max 0 ((real d + 1 / 2) * (real in_size / real out_size) - 1 / 2)"

definition bilinear_at ::
    "'a arith \<Rightarrow> nat \<Rightarrow> nat \<Rightarrow> nat \<Rightarrow> nat \<Rightarrow> 'a list \<Rightarrow> nat \<Rightarrow> nat \<Rightarrow> 'a" where
  "bilinear_at A H W oh ow plane i j =
     (let sy = source_index H oh i; h1 = nat \<lfloor>sy\<rfloor>;
          h1p = (if h1 < H - 1 then 1 else 0);
          h1l = sy - real h1; h0l = 1 - h1l;
          sx = source_index W ow j; w1 = nat \<lfloor>sx\<rfloor>;
          w1p = (if w1 < W - 1 then 1 else 0);
          w1l = sx - real w1; w0l = 1 - w1l
      in f_add A
           (f_mul A (f_lit A h0l)
              (f_add A (f_mul A (f_lit A w0l) (plane ! (h1 * W + w1)))
                       (f_mul A (f_lit A w1l) (plane ! (h1 * W + w1 + w1p)))))
           (f_mul A (f_lit A h1l)
              (f_add A (f_mul A (f_lit A w0l) (plane ! ((h1 + h1p) * W + w1)))
                       (f_mul A (f_lit A w1l) (plane ! ((h1 + h1p) * W + w1 + w1p))))))"

definition interpolate_bilinear :: "'a arith \<Rightarrow> 'a tensor \<Rightarrow> nat list \<Rightarrow> error + 'a tensor" where
  "interpolate_bilinear A x size' =
     (if length (shape x) \<noteq> 4 \<or> length size' \<noteq> 2 then Inl RuntimeError
      else
        let N = shape x ! 0; C = shape x ! 1; H = shape x ! 2; W = shape x ! 3;
            oh = size' ! 0; ow = size' ! 1
        in if H = 0 \<or> W = 0 \<or> oh = 0 \<or> ow = 0 then Inl RuntimeError
           else
             Inr \<lparr>shape = [N, C, oh, ow],
                  elems =
                    concat (map (\<lambda>p.
                      concat (map (\<lambda>i.
                        map (\<lambda>j. bilinear_at A H W oh ow
                                    (take (H * W) (drop (p * (H * W)) (elems x))) i j)
                          [0..<ow]) [0..<oh])) [0..<N * C])\<rparr>)"

section \<open>The layer observers of misc.py\<close>

text \<open>
  A \<^verbatim>\<open>CaptureLayerData\<close> object: the captured \<^verbatim>\<open>data\<close>, the \<^verbatim>\<open>post_process\<close> callable and the
  configured \<^verbatim>\<open>device\<close> (\<^verbatim>\<open>None\<close> accepts every device).
\<close>

record 'a observer =
  data :: "'a pydata"
  post_process :: "'a tensor \<Rightarrow> 'a tensor"
  device :: "string option"

definition CaptureLayerData_init :: "string option \<Rightarrow> ('a tensor \<Rightarrow> 'a tensor) \<Rightarrow> 'a observer" where
  "CaptureLayerData_init device' post_process' =
     \<lparr>data = DNone, post_process = post_process', device = device'\<rparr>"

text \<open>
  What PyTorch hands to a forward hook \<^verbatim>\<open>__call__(self, m, i, o)\<close>: the tuple \<^verbatim>\<open>i\<close> of
  the layer's input tensors, its output tensor \<^verbatim>\<open>o\<close>, and the device \<^verbatim>\<open>o.device\<close>.
\<close>

record 'a forward_event =
  layer_inputs :: "'a tensor list"
  layer_output :: "'a tensor"
  layer_device :: string

text \<open>\<^verbatim>\<open>CaptureLayerOutput.__call__\<close>:
  \<^verbatim>\<open>if self.device is None or self.device == o.device: self.data = self.post_process(o.data)\<close>.\<close>

definition CaptureLayerOutput_call :: "'a observer \<Rightarrow> 'a forward_event \<Rightarrow> 'a observer" where
  "CaptureLayerOutput_call self ev =
     (if device self = None \<or> device self = Some (layer_device ev)
      then self\<lparr>data := DTensor (post_process self (layer_output ev))\<rparr>
      else self)"

text \<open>\<^verbatim>\<open>CaptureLayerInput.__call__\<close>: under the same test, \<^verbatim>\<open>self.data = list()\<close> and, for
  \<^verbatim>\<open>n in range(len(i))\<close>, \<^verbatim>\<open>self.data.append(self.post_process(i[n].data))\<close>.\<close>

definition CaptureLayerInput_call :: "'a observer \<Rightarrow> 'a forward_event \<Rightarrow> 'a observer" where
  "CaptureLayerInput_call self ev =
     (if device self = None \<or> device self = Some (layer_device ev)
      then self\<lparr>data := DList (map (post_process self) (layer_inputs ev))\<rparr>
      else self)"

text \<open>Python indexing of a sequence of length \<open>n\<close>: a negative index counts from the end,
  an index out of range raises IndexError.\<close>

definition py_index :: "int \<Rightarrow> nat \<Rightarrow> error + nat" where
  "py_index idx n =
     (if 0 \<le> idx \<and> idx < int n then Inr (nat idx)
      else if idx < 0 \<and> - int n \<le> idx then Inr (nat (int n + idx))
      else Inl IndexError)"

text \<open>\<open>t[k]\<close> of a tensor: its \<open>k\<close>-th slice along the first dimension.\<close>

definition t_select :: "'a tensor \<Rightarrow> nat \<Rightarrow> 'a tensor" where
  "t_select t k =
     (let n = prod_list (tl (shape t))
      in \<lparr>shape = tl (shape t), elems = take n (drop (k * n) (elems t))\<rparr>)"

text \<open>
  \<^verbatim>\<open>CaptureLayerData.get(idx=0)\<close>:
  \<^verbatim>\<open>if self.data is not None and idx <= len(self.data): return self.data[idx]\<close>, else
  \<^verbatim>\<open>return None\<close>. \<^verbatim>\<open>len\<close> of a tensor is its first dimension (TypeError for a tensor
  without dimensions), and indexing a tensor selects a slice.
\<close>

definition CaptureLayerData_get :: "'a observer \<Rightarrow> int \<Rightarrow> error + 'a pydata" where
  "CaptureLayerData_get self idx =
     (case data self of
        DNone \<Rightarrow> Inr DNone
      | DTensor t \<Rightarrow>
          if shape t = [] then Inl TypeError
          else if idx \<le> int (hd (shape t)) then
            (case py_index idx (hd (shape t)) of
               Inl e \<Rightarrow> Inl e
             | Inr k \<Rightarrow> Inr (DTensor (t_select t k)))
          else Inr DNone
      | DList ts \<Rightarrow>
          if idx \<le> int (length ts) then
            (case py_index idx (length ts) of
               Inl e \<Rightarrow> Inl e
             | Inr k \<Rightarrow> Inr (DTensor (ts ! k)))
          else Inr DNone)"


section \<open>SmoothGrad\<close>

text \<open>
  \<^verbatim>\<open>SmoothGrad.__init__\<close> stores \<^verbatim>\<open>iters\<close>, \<^verbatim>\<open>magnitude\<close>, \<^verbatim>\<open>stdev_spread\<close> and
  \<^verbatim>\<open>maps_magnitude\<close>, and fixes \<^verbatim>\<open>getSmap = maps.SMOEScaleMap()\<close> and
  \<^verbatim>\<open>getNorm = maps.Normalize2D()\<close>. (The field \<^verbatim>\<open>magnitude\<close> is \<open>sg_magnitude\<close> here, the
  combiner has a field of that name.)
\<close>

record smoothgrad =
  iters :: int
  sg_magnitude :: bool
  stdev_spread :: real
  maps_magnitude :: bool

definition SmoothGrad_init :: "int \<Rightarrow> bool \<Rightarrow> real \<Rightarrow> bool \<Rightarrow> smoothgrad" where
  "SmoothGrad_init iters' magnitude' stdev_spread' maps_magnitude' =
     \<lparr>iters = iters', sg_magnitude = magnitude', stdev_spread = stdev_spread',
      maps_magnitude = maps_magnitude'\<rparr>"

text \<open>\<^verbatim>\<open>torch.max(t)\<close> and \<^verbatim>\<open>torch.min(t)\<close> over all elements; both raise RuntimeError on a
  tensor without elements.\<close>

definition t_max :: "'a arith \<Rightarrow> 'a tensor \<Rightarrow> error + 'a" where
  "t_max A t = (if elems t = [] then Inl RuntimeError else Inr (f_max A (elems t)))"

definition t_min :: "'a arith \<Rightarrow> 'a tensor \<Rightarrow> error + 'a" where
  "t_min A t = (if elems t = [] then Inl RuntimeError else Inr (f_min A (elems t)))"

text \<open>
  \<^verbatim>\<open>torch.normal(mean=0,std=stdev,size=in_tensor.size())\<close>: RuntimeError unless
  \<open>std \<ge> 0\<close>; otherwise each element is a standard normal draw times \<open>std\<close> plus the
  mean. The draws are a parameter: \<open>z j\<close> is the draw for element \<open>j\<close>.
\<close>

definition normal_sample :: "'a arith \<Rightarrow> (nat \<Rightarrow> 'a) \<Rightarrow> 'a \<Rightarrow> nat list \<Rightarrow> 'a tensor" where
  "normal_sample A z std size' =
     \<lparr>shape = size',
      elems = map (\<lambda>j. f_add A (f_mul A (z j) std) (f_lit A 0)) [0..<prod_list size']\<rparr>"

definition torch_normal :: "'a arith \<Rightarrow> (nat \<Rightarrow> 'a) \<Rightarrow> 'a \<Rightarrow> nat list \<Rightarrow> error + 'a tensor" where
  "torch_normal A z std size' =
     (if f_ge0 A std then Inr (normal_sample A z std size') else Inl RuntimeError)"

text \<open>A list comprehension whose element expression may raise: the first error wins.\<close>

fun comprehension :: "('b \<Rightarrow> error + 'c) \<Rightarrow> 'b list \<Rightarrow> error + 'c list" where
  "comprehension f [] = Inr []"
| "comprehension f (x # xs) =
     (case f x of
        Inl e \<Rightarrow> Inl e
      | Inr y \<Rightarrow> (case comprehension f xs of Inl e \<Rightarrow> Inl e | Inr ys \<Rightarrow> Inr (y # ys)))"

text \<open>
  The model under explanation and its hooks are outside the repository. Their state is a
  value \<open>h\<close> of any type; \<open>model h x\<close> is the state after the forward pass
  \<^verbatim>\<open>model(x)\<close> has fired the hooks, and \<open>hook_data h\<close> lists \<^verbatim>\<open>x.data for x in hooks\<close>.
  A forward pass reads its argument and touches nothing but the hooks.

  The part of one iteration that computes on values:
  \<^verbatim>\<open>_ = model(in_tensor_noise)\<close>,
  \<^verbatim>\<open>smaps = [ self.getNorm(self.getSmap(x.data)) for x in hooks ]\<close>,
  \<^verbatim>\<open>csmap,smaps = getCsmap(smaps)\<close>.
\<close>

definition SmoothGrad_score ::
    "'a arith \<Rightarrow> ('a tensor \<Rightarrow> nat list \<Rightarrow> string \<Rightarrow> error + 'a tensor) \<Rightarrow>
     ('h \<Rightarrow> 'a tensor \<Rightarrow> 'h) \<Rightarrow> ('h \<Rightarrow> 'a pydata list) \<Rightarrow> combiner \<Rightarrow> 'a tensor \<Rightarrow> 'h \<Rightarrow>
     error + 'h \<times> 'a tensor \<times> 'a tensor" where
  "SmoothGrad_score A interp model hook_data getCsmap in_tensor_noise h =
     (let h' = model h in_tensor_noise
      in case comprehension
                (\<lambda>d. case SMOEScaleMap_forward A False d of
                        Inl e \<Rightarrow> Inl e
                      | Inr t \<Rightarrow> Normalize2D_forward A (DTensor t))
                (hook_data h') of
           Inl e \<Rightarrow> Inl e
         | Inr smaps \<Rightarrow>
             (case CombineSaliencyMaps_forward A interp getCsmap smaps of
                Inl e \<Rightarrow> Inl e
              | Inr (csmap, smaps) \<Rightarrow> Inr (h', csmap, smaps)))"

text \<open>
  Tensors that a caller holds or receives live in a store, a list of tensors addressed by
  position: creating a tensor appends it, an in-place operation overwrites its cell.
  Tensors that stay local to a statement are plain values.
\<close>

definition alloc :: "'a tensor list \<Rightarrow> 'a tensor \<Rightarrow> nat \<times> 'a tensor list" where
  "alloc st t = (length st, st @ [t])"

text \<open>
  \<^verbatim>\<open>a += b\<close> on tensors, \<open>a\<close> at address \<open>r\<close>. The accumulators have shapes
  \<open>[1, H, W]\<close> and \<open>[1, L, H, W]\<close> and the maps added to them \<open>[bn, H, W]\<close> and
  \<open>[bn, L, H, W]\<close>, so PyTorch can broadcast the right side to the left exactly when the
  two shapes are equal, and raises RuntimeError otherwise.
\<close>

definition iadd :: "'a arith \<Rightarrow> 'a tensor list \<Rightarrow> nat \<Rightarrow> 'a tensor \<Rightarrow> error + 'a tensor list" where
  "iadd A st r b =
     (if shape b = shape (st ! r) then Inr (st[r := t_zip (f_add A) (st ! r) b])
      else Inl RuntimeError)"

text \<open>
  The first half of the loop body, on the store: the noise is drawn with the one \<open>stdev\<close>
  of the call, \<^verbatim>\<open>in_tensor_noise = in_tensor + noise\<close> is a new tensor, and the two maps
  of the iteration are new tensors. An error carries the store it leaves behind.
\<close>

definition SmoothGrad_step ::
    "'a arith \<Rightarrow> ('a tensor \<Rightarrow> nat list \<Rightarrow> string \<Rightarrow> error + 'a tensor) \<Rightarrow> (nat \<Rightarrow> nat \<Rightarrow> 'a) \<Rightarrow>
     ('h \<Rightarrow> 'a tensor \<Rightarrow> 'h) \<Rightarrow> ('h \<Rightarrow> 'a pydata list) \<Rightarrow> combiner \<Rightarrow> nat \<Rightarrow> 'a \<Rightarrow>
     nat \<Rightarrow> 'a tensor list \<Rightarrow> 'h \<Rightarrow>
     error \<times> 'a tensor list + 'a tensor list \<times> 'h \<times> nat \<times> nat \<times> nat" where
  "SmoothGrad_step A interp randn model hook_data getCsmap in_tensor stdev i st h =
     (case torch_normal A (randn i) stdev (shape (st ! in_tensor)) of
        Inl e \<Rightarrow> Inl (e, st)
      | Inr noise \<Rightarrow>
          let (in_tensor_noise, st) = alloc st (t_zip (f_add A) (st ! in_tensor) noise)
          in case SmoothGrad_score A interp model hook_data getCsmap (st ! in_tensor_noise) h of
               Inl e \<Rightarrow> Inl (e, st)
             | Inr (h', csmap_v, smaps_v) \<Rightarrow>
                 let (csmap, st) = alloc st csmap_v;
                     (smaps, st) = alloc st smaps_v
                 in Inr (st, h', in_tensor_noise, csmap, smaps))"

text \<open>
  The loop \<^verbatim>\<open>for i in range(self.iters)\<close>. The flag \<^verbatim>\<open>debug\<close> does not change during a
  call, so the loop is one of two loops. With \<^verbatim>\<open>debug\<close>, each iteration appends
  \<^verbatim>\<open>csmap\<close>, \<^verbatim>\<open>smaps\<close> and \<^verbatim>\<open>in_tensor_noise\<close> to three lists.
\<close>

fun loop_debug ::
    "(nat \<Rightarrow> 'a tensor list \<Rightarrow> 'h \<Rightarrow>
        error \<times> 'a tensor list + 'a tensor list \<times> 'h \<times> nat \<times> nat \<times> nat) \<Rightarrow>
     nat list \<Rightarrow> 'a tensor list \<Rightarrow> 'h \<Rightarrow> nat list \<times> nat list \<times> nat list \<Rightarrow>
     error \<times> 'a tensor list + 'a tensor list \<times> 'h \<times> nat list \<times> nat list \<times> nat list" where
  "loop_debug step [] st h (out_csmap, out_smaps, ret_image) =
     Inr (st, h, out_csmap, out_smaps, ret_image)"
| "loop_debug step (i # is) st h (out_csmap, out_smaps, ret_image) =
     (case step i st h of
        Inl e \<Rightarrow> Inl e
      | Inr (st, h, in_tensor_noise, csmap, smaps) \<Rightarrow>
          loop_debug step is st h
            (out_csmap @ [csmap], out_smaps @ [smaps], ret_image @ [in_tensor_noise]))"

text \<open>
  Without \<^verbatim>\<open>debug\<close>, each iteration adds in place to the two accumulators:
  \<^verbatim>\<open>out_csmap += (csmap * csmap); out_smaps += (smaps * smaps)\<close> if \<^verbatim>\<open>self.magnitude\<close>,
  \<^verbatim>\<open>out_csmap += csmap; out_smaps += smaps\<close> otherwise.
\<close>

fun loop_mean ::
    "'a arith \<Rightarrow>
     (nat \<Rightarrow> 'a tensor list \<Rightarrow> 'h \<Rightarrow>
        error \<times> 'a tensor list + 'a tensor list \<times> 'h \<times> nat \<times> nat \<times> nat) \<Rightarrow>
     bool \<Rightarrow> nat \<Rightarrow> nat \<Rightarrow> nat list \<Rightarrow> 'a tensor list \<Rightarrow> 'h \<Rightarrow>
     error \<times> 'a tensor list + 'a tensor list \<times> 'h" where
  "loop_mean A step mag out_csmap out_smaps [] st h = Inr (st, h)"
| "loop_mean A step mag out_csmap out_smaps (i # is) st h =
     (case step i st h of
        Inl e \<Rightarrow> Inl e
      | Inr (st, h, in_tensor_noise, csmap, smaps) \<Rightarrow>
          (case iadd A st out_csmap
                  (if mag then t_zip (f_mul A) (st ! csmap) (st ! csmap) else st ! csmap) of
             Inl e \<Rightarrow> Inl (e, st)
           | Inr st \<Rightarrow>
               (case iadd A st out_smaps
                       (if mag then t_zip (f_mul A) (st ! smaps) (st ! smaps) else st ! smaps) of
                  Inl e \<Rightarrow> Inl (e, st)
                | Inr st \<Rightarrow> loop_mean A step mag out_csmap out_smaps is st h)))"

text \<open>What \<^verbatim>\<open>__call__\<close> returns as \<^verbatim>\<open>out_csmap\<close> and as \<^verbatim>\<open>out_smaps\<close>: one tensor, or with
  \<^verbatim>\<open>debug\<close> a list of tensors.\<close>

datatype pyout = OTensor nat | OList "nat list"

text \<open>
  \<^verbatim>\<open>SmoothGrad.__call__(in_tensor, model, hooks, weights, debug)\<close>. \<open>in_tensor\<close> is the
  address of the caller's tensor in the store \<open>st\<close>. The result is the triple
  \<^verbatim>\<open>out_csmap, out_smaps, ret_image\<close> with the final store and hook state, or an error
  with the store at the moment it was raised.
\<close>

definition SmoothGrad_call ::
    "'a arith \<Rightarrow> ('a tensor \<Rightarrow> nat list \<Rightarrow> string \<Rightarrow> error + 'a tensor) \<Rightarrow> (nat \<Rightarrow> nat \<Rightarrow> 'a) \<Rightarrow>
     ('h \<Rightarrow> 'a tensor \<Rightarrow> 'h) \<Rightarrow> ('h \<Rightarrow> 'a pydata list) \<Rightarrow> smoothgrad \<Rightarrow> 'a tensor list \<Rightarrow> nat \<Rightarrow>
     'h \<Rightarrow> pyweights \<Rightarrow> bool \<Rightarrow>
     error \<times> 'a tensor list + pyout \<times> pyout \<times> nat list \<times> 'a tensor list \<times> 'h" where
  "SmoothGrad_call A interp randn model hook_data self st in_tensor h weights' debug =
     (if length (shape (st ! in_tensor)) < 4 then Inl (IndexError, st)
      else
        let in_height = shape (st ! in_tensor) ! 2;
            in_width = shape (st ! in_tensor) ! 3;
            map_num' = length (hook_data h)
        in case CombineSaliencyMaps_init A [int in_height, int in_width] (int map_num') weights'
                  ''bilinear'' (maps_magnitude self) of
             Inl e \<Rightarrow> Inl (e, st)
           | Inr getCsmap \<Rightarrow>
               (case t_max A (st ! in_tensor) of
                  Inl e \<Rightarrow> Inl (e, st)
                | Inr mx \<Rightarrow>
                    (case t_min A (st ! in_tensor) of
                       Inl e \<Rightarrow> Inl (e, st)
                     | Inr mn \<Rightarrow>
                         let stdev = f_mul A (f_lit A (stdev_spread self)) (f_sub A mx mn);
                             step = SmoothGrad_step A interp randn model hook_data getCsmap
                                      in_tensor stdev
                         in if debug then
                              (case loop_debug step [0..<nat (iters self)] st h ([], [], []) of
                                 Inl e \<Rightarrow> Inl e
                               | Inr (st, h, out_csmap, out_smaps, ret_image) \<Rightarrow>
                                   Inr (OList out_csmap, OList out_smaps, ret_image, st, h))
                            else
                              let (out_csmap, st) = alloc st (zeros A [1, in_height, in_width]);
                                  (out_smaps, st) =
                                     alloc st (zeros A [1, map_num', in_height, in_width])
                              in case loop_mean A step (sg_magnitude self) out_csmap out_smaps
                                        [0..<nat (iters self)] st h of
                                   Inl e \<Rightarrow> Inl e
                                 | Inr (st, h) \<Rightarrow>
                                     let st = st[out_csmap :=
                                                t_map (\<lambda>v. f_div A v (f_lit A (of_int (iters self))))
                                                  (st ! out_csmap)];
                                         st = st[out_smaps :=
                                                t_map (\<lambda>v. f_div A v (f_lit A (of_int (iters self))))
                                                  (st ! out_smaps)]
                                     in Inr (OTensor out_csmap, OTensor out_smaps, [], st, h))))"


section \<open>An idealised arithmetic\<close>

text \<open>
  One arithmetic on which the functions can be run: a finite element carries an exact
  real number, and the three special values of IEEE-754 arithmetic are kept, so that a
  division by zero or a logarithm of a non-positive number is a value, as it is in the
  program. Finite results are not rounded and do not overflow, and there is no negative
  zero. It serves to evaluate the functions on concrete inputs; the theorems that are
  stated for every arithmetic do not depend on it.
\<close>

datatype fval = Fin real | PInf | NInf | NaN

fun fneg :: "fval \<Rightarrow> fval" where
  "fneg (Fin a) = Fin (- a)"
| "fneg PInf = NInf"
| "fneg NInf = PInf"
| "fneg NaN = NaN"

fun fadd :: "fval \<Rightarrow> fval \<Rightarrow> fval" where
  "fadd (Fin a) (Fin b) = Fin (a + b)"
| "fadd NaN _ = NaN"
| "fadd _ NaN = NaN"
| "fadd PInf NInf = NaN"
| "fadd NInf PInf = NaN"
| "fadd PInf _ = PInf"
| "fadd _ PInf = PInf"
| "fadd NInf _ = NInf"
| "fadd _ NInf = NInf"

definition fsub :: "fval \<Rightarrow> fval \<Rightarrow> fval" where
  "fsub a b = fadd a (fneg b)"

text \<open>The sign of an infinite product: \<open>0 * inf\<close> is NaN.\<close>

definition signed_inf :: "real \<Rightarrow> fval" where
  "signed_inf a = (if 0 < a then PInf else if a < 0 then NInf else NaN)"

fun fmul :: "fval \<Rightarrow> fval \<Rightarrow> fval" where
  "fmul (Fin a) (Fin b) = Fin (a * b)"
| "fmul NaN _ = NaN"
| "fmul _ NaN = NaN"
| "fmul (Fin a) PInf = signed_inf a"
| "fmul (Fin a) NInf = signed_inf (- a)"
| "fmul PInf (Fin b) = signed_inf b"
| "fmul NInf (Fin b) = signed_inf (- b)"
| "fmul PInf PInf = PInf"
| "fmul NInf NInf = PInf"
| "fmul PInf NInf = NInf"
| "fmul NInf PInf = NInf"

text \<open>
  Division: a finite non-zero number over zero is an infinity, \<open>0 / 0\<close> and
  \<open>inf / inf\<close> are NaN, a finite number over an infinity is zero.
\<close>

fun fdiv :: "fval \<Rightarrow> fval \<Rightarrow> fval" where
  "fdiv (Fin a) (Fin b) = (if b \<noteq> 0 then Fin (a / b) else signed_inf a)"
| "fdiv NaN _ = NaN"
| "fdiv _ NaN = NaN"
| "fdiv (Fin a) PInf = Fin 0"
| "fdiv (Fin a) NInf = Fin 0"
| "fdiv PInf (Fin b) = (if 0 \<le> b then PInf else NInf)"
| "fdiv NInf (Fin b) = (if 0 \<le> b then NInf else PInf)"
| "fdiv PInf PInf = NaN"
| "fdiv PInf NInf = NaN"
| "fdiv NInf PInf = NaN"
| "fdiv NInf NInf = NaN"

text \<open>\<^verbatim>\<open>torch.log\<close> and \<^verbatim>\<open>torch.log2\<close>: \<open>log 0 = -inf\<close>, the logarithm of a negative number is NaN.\<close>

fun flog :: "fval \<Rightarrow> fval" where
  "flog (Fin a) = (if 0 < a then Fin (ln a) else if a = 0 then NInf else NaN)"
| "flog PInf = PInf"
| "flog NInf = NaN"
| "flog NaN = NaN"

fun flog2 :: "fval \<Rightarrow> fval" where
  "flog2 (Fin a) = (if 0 < a then Fin (log 2 a) else if a = 0 then NInf else NaN)"
| "flog2 PInf = PInf"
| "flog2 NInf = NaN"
| "flog2 NaN = NaN"

fun fexp :: "fval \<Rightarrow> fval" where
  "fexp (Fin a) = Fin (exp a)"
| "fexp PInf = PInf"
| "fexp NInf = Fin 0"
| "fexp NaN = NaN"

fun fsqrt :: "fval \<Rightarrow> fval" where
  "fsqrt (Fin a) = (if 0 \<le> a then Fin (sqrt a) else NaN)"
| "fsqrt PInf = PInf"
| "fsqrt NInf = NaN"
| "fsqrt NaN = NaN"

text \<open>
  The error function, by its power series
  \<open>erf x = 2 / sqrt pi * (\<Sum>n. (-1)^n * x^(2n+1) / (n! * (2n+1)))\<close>;
  \<^verbatim>\<open>torch.erf\<close> maps the infinities to \<open>-1\<close> and \<open>1\<close>.
\<close>

definition erf :: "real \<Rightarrow> real" where
  "erf x = 2 / sqrt pi * (\<Sum>n. (- 1) ^ n * x ^ (2 * n + 1) / (fact n * real (2 * n + 1)))"

fun ferf :: "fval \<Rightarrow> fval" where
  "ferf (Fin a) = Fin (erf a)"
| "ferf PInf = Fin 1"
| "ferf NInf = Fin (- 1)"
| "ferf NaN = NaN"

text \<open>\<^verbatim>\<open>nn.ReLU\<close>: the maximum with zero; NaN stays NaN.\<close>

fun frelu :: "fval \<Rightarrow> fval" where
  "frelu (Fin a) = Fin (max 0 a)"
| "frelu PInf = PInf"
| "frelu NInf = Fin 0"
| "frelu NaN = NaN"

text \<open>The maximum and the minimum of two values, as the reductions \<^verbatim>\<open>torch.max\<close> and
  \<^verbatim>\<open>torch.min\<close> combine them: NaN wins.\<close>

fun fmax :: "fval \<Rightarrow> fval \<Rightarrow> fval" where
  "fmax (Fin a) (Fin b) = Fin (max a b)"
| "fmax NaN _ = NaN"
| "fmax _ NaN = NaN"
| "fmax PInf _ = PInf"
| "fmax _ PInf = PInf"
| "fmax NInf b = b"
| "fmax a NInf = a"

fun fmin :: "fval \<Rightarrow> fval \<Rightarrow> fval" where
  "fmin (Fin a) (Fin b) = Fin (min a b)"
| "fmin NaN _ = NaN"
| "fmin _ NaN = NaN"
| "fmin NInf _ = NInf"
| "fmin _ NInf = NInf"
| "fmin PInf b = b"
| "fmin a PInf = a"

text \<open>Sum and mean of a list of values; the mean of no value is \<open>0 / 0\<close>.\<close>

definition fsum :: "fval list \<Rightarrow> fval" where
  "fsum vs = foldl fadd (Fin 0) vs"

definition fmean :: "fval list \<Rightarrow> fval" where
  "fmean vs = fdiv (fsum vs) (Fin (real (length vs)))"

text \<open>
  \<^verbatim>\<open>torch.std\<close> with its default (Bessel's) correction: the square root of the sum of
  squared deviations from the mean over \<open>max 0 (N - 1)\<close>.
\<close>

definition fstd :: "fval list \<Rightarrow> fval" where
  "fstd vs =
     (let m = fmean vs
      in fsqrt (fdiv (fsum (map (\<lambda>v. fmul (fsub v m) (fsub v m)) vs))
                     (Fin (real (length vs - 1)))))"

text \<open>The test \<open>std \<ge> 0\<close>.\<close>

fun std_ok :: "fval \<Rightarrow> bool" where
  "std_ok (Fin a) = (0 \<le> a)"
| "std_ok PInf = True"
| "std_ok NInf = False"
| "std_ok NaN = False"

definition exact :: "fval arith" where
  "exact =
     \<lparr>f_lit = Fin, f_add = fadd, f_sub = fsub, f_mul = fmul, f_div = fdiv,
      f_log = flog, f_log2 = flog2, f_exp = fexp, f_sqrt = fsqrt, f_erf = ferf,
      f_relu = frelu, f_square = (\<lambda>v. fmul v v), f_mean = fmean, f_std = fstd,
      f_max = (\<lambda>vs. foldl fmax (hd vs) (tl vs)), f_min = (\<lambda>vs. foldl fmin (hd vs) (tl vs)),
      f_ge0 = std_ok, py_add = (+)\<rparr>"

text \<open>
  In float32, \<^verbatim>\<open>torch.erf\<close> returns exactly \<open>1\<close> for every argument from about \<open>3.92\<close> on, and
  exactly \<open>-1\<close> for every argument up to about \<open>-3.92\<close>. The arithmetic \<open>saturating\<close> is the
  idealised one with this one rounding: its error function is \<open>1\<close> from \<open>4\<close> on and \<open>-1\<close>
  up to \<open>-4\<close>.
\<close>

fun ferf_sat :: "fval \<Rightarrow> fval" where
  "ferf_sat (Fin a) = (if 4 \<le> a then Fin 1 else if a \<le> - 4 then Fin (- 1) else Fin (erf a))"
| "ferf_sat PInf = Fin 1"
| "ferf_sat NInf = Fin (- 1)"
| "ferf_sat NaN = NaN"

definition saturating :: "fval arith" where
  "saturating = exact\<lparr>f_erf := ferf_sat\<rparr>"

text \<open>Whether a value is a finite number.\<close>

fun is_finite :: "fval \<Rightarrow> bool" where
  "is_finite (Fin a) = True"
| "is_finite PInf = False"
| "is_finite NInf = False"
| "is_finite NaN = False"



section \<open>Reference definitions\<close>

text \<open>
  The per-pixel quantities of the truncated-normal entropy, in the words of the
  specification: the standardized truncation point \<open>(0 - m) / s\<close>, the standard normal
  density and distribution function, and the entropy
  \<open>log (sqrt (2 pi e) * s * Z) + (alpha * phi alpha) / (2 * Z)\<close> for a survival term
  \<open>Z\<close>, with the constants and operations of the code.
\<close>

definition truncation_point :: "'a arith \<Rightarrow> 'a \<Rightarrow> 'a \<Rightarrow> 'a" where
  "truncation_point A m s = f_div A (f_sub A (f_lit A 0) m) s"

definition normal_pdf :: "'a arith \<Rightarrow> 'a \<Rightarrow> 'a" where
  "normal_pdf A a = f_mul A (f_lit A c1) (f_exp A (f_mul A (f_lit A (- (1 / 2))) (f_square A a)))"

definition normal_cdf :: "'a arith \<Rightarrow> 'a \<Rightarrow> 'a" where
  "normal_cdf A a =
     f_mul A (f_lit A (1 / 2)) (f_add A (f_lit A 1) (f_erf A (f_div A a (f_lit A c2))))"

definition truncated_entropy :: "'a arith \<Rightarrow> 'a \<Rightarrow> 'a \<Rightarrow> 'a \<Rightarrow> 'a" where
  "truncated_entropy A s a Z =
     f_add A (f_log A (f_mul A (f_mul A (f_lit A c3) s) Z))
             (f_div A (f_mul A a (normal_pdf A a)) (f_mul A (f_lit A 2) Z))"

text \<open>The device test of both hooks: \<^verbatim>\<open>self.device is None or self.device == o.device\<close>.\<close>

definition accepts :: "string option \<Rightarrow> 'a forward_event \<Rightarrow> bool" where
  "accepts dev ev = (dev = None \<or> dev = Some (layer_device ev))"

text \<open>
  The perturbed input of iteration \<open>i\<close>: the tensor \<open>x\<close> plus the noise drawn for
  that iteration with standard deviation \<open>stdev\<close>.
\<close>

definition perturbed :: "'a arith \<Rightarrow> (nat \<Rightarrow> nat \<Rightarrow> 'a) \<Rightarrow> 'a \<Rightarrow> 'a tensor \<Rightarrow> nat \<Rightarrow> 'a tensor" where
  "perturbed A randn stdev x i = t_zip (f_add A) x (normal_sample A (randn i) stdev (shape x))"

text \<open>
  The maps of the successive iterations: iteration \<open>i\<close> scores the input \<open>inp i\<close> in the
  hook state its predecessor left, and yields the pair \<^verbatim>\<open>csmap, smaps\<close>.
\<close>

fun iteration_maps ::
    "(nat \<Rightarrow> 'a tensor) \<Rightarrow> ('a tensor \<Rightarrow> 'h \<Rightarrow> error + 'h \<times> 'a tensor \<times> 'a tensor) \<Rightarrow> nat list \<Rightarrow>
     'h \<Rightarrow> error + ('a tensor \<times> 'a tensor) list \<times> 'h" where
  "iteration_maps inp score [] h = Inr ([], h)"
| "iteration_maps inp score (i # is) h =
     (case score (inp i) h of
        Inl e \<Rightarrow> Inl e
      | Inr (h', csmap, smaps) \<Rightarrow>
          (case iteration_maps inp score is h' of
             Inl e \<Rightarrow> Inl e
           | Inr (ms, h'') \<Rightarrow> Inr ((csmap, smaps) # ms, h'')))"

text \<open>The elementwise square, the sum of a list of tensors from the zero tensor of a
  shape, and the division of a tensor by an integer.\<close>

definition t_square :: "'a arith \<Rightarrow> 'a tensor \<Rightarrow> 'a tensor" where
  "t_square A t = t_zip (f_mul A) t t"

definition t_sum :: "'a arith \<Rightarrow> nat list \<Rightarrow> 'a tensor list \<Rightarrow> 'a tensor" where
  "t_sum A sh ts = foldl (t_zip (f_add A)) (zeros A sh) ts"

definition t_div_int :: "'a arith \<Rightarrow> 'a tensor \<Rightarrow> int \<Rightarrow> 'a tensor" where
  "t_div_int A t n = t_map (\<lambda>v. f_div A v (f_lit A (of_int n))) t"

text \<open>The store a call leaves behind, whether it returns or raises, and the addresses
  a returned value holds.\<close>

fun final_store ::
    "error \<times> 'a tensor list + pyout \<times> pyout \<times> nat list \<times> 'a tensor list \<times> 'h \<Rightarrow> 'a tensor list" where
  "final_store (Inl (e, st)) = st"
| "final_store (Inr (out_csmap, out_smaps, ret_image, st, h)) = st"

fun refs_of :: "pyout \<Rightarrow> nat list" where
  "refs_of (OTensor r) = [r]"
| "refs_of (OList rs) = rs"

text \<open>The combined map a call returns without \<^verbatim>\<open>debug\<close>: the tensor at the returned address,
  in the store the call leaves.\<close>

fun returned_csmap ::
    "error \<times> 'a tensor list + pyout \<times> pyout \<times> nat list \<times> 'a tensor list \<times> 'h \<Rightarrow> 'a tensor option" where
  "returned_csmap (Inr (OTensor oc, out_smaps, ret_image, st, h)) = Some (st ! oc)"
| "returned_csmap (Inr (OList rs, out_smaps, ret_image, st, h)) = None"
| "returned_csmap (Inl e) = None"

text \<open>The noise scale of a call:
  \<^verbatim>\<open>stdev = self.stdev_spread * (torch.max(in_tensor) - torch.min(in_tensor))\<close>.\<close>

definition noise_scale :: "'a arith \<Rightarrow> smoothgrad \<Rightarrow> 'a tensor \<Rightarrow> error + 'a" where
  "noise_scale A self x =
     (case t_max A x of
        Inl e \<Rightarrow> Inl e
      | Inr mx \<Rightarrow>
          (case t_min A x of
             Inl e \<Rightarrow> Inl e
           | Inr mn \<Rightarrow> Inr (f_mul A (f_lit A (stdev_spread self)) (f_sub A mx mn))))"

text \<open>
  The static single-pass pipeline, in the words of the specification: one forward pass
  on the input, for each observed layer the normalized scale map of its captured
  activation, and the resulting fields fed into the map combiner.
\<close>

definition single_pass ::
    "'a arith \<Rightarrow> ('a tensor \<Rightarrow> nat list \<Rightarrow> string \<Rightarrow> error + 'a tensor) \<Rightarrow> ('h \<Rightarrow> 'a tensor \<Rightarrow> 'h) \<Rightarrow>
     ('h \<Rightarrow> 'a pydata list) \<Rightarrow> combiner \<Rightarrow> 'a tensor \<Rightarrow> 'h \<Rightarrow> error + 'a tensor \<times> 'a tensor" where
  "single_pass A interp model hook_data map_combiner x h =
     (case comprehension
             (\<lambda>activation.
                case SMOEScaleMap_forward A False activation of
                  Inl e \<Rightarrow> Inl e
                | Inr field \<Rightarrow> Normalize2D_forward A (DTensor field))
             (hook_data (model h x)) of
        Inl e \<Rightarrow> Inl e
      | Inr saliency_fields \<Rightarrow> CombineSaliencyMaps_forward A interp map_combiner saliency_fields)"

text \<open>
  Two conditions on the values of a tensor, for the statement that one iteration without
  noise is the single pass. \<open>neutral_on A vs\<close>: for each value of \<open>vs\<close>, adding it to
  zero and dividing it by one return it. \<open>zero_noise_on A z vs\<close>: for each value of
  \<open>vs\<close>, adding to it a noise element of standard deviation zero, which is some draw
  \<open>z j\<close> times zero plus the mean zero, returns it. (In IEEE-754 arithmetic a division
  by one returns its operand, and adding a zero returns the other operand unless that is
  the negative zero; a finite draw times zero is a zero.)
\<close>

definition neutral_on :: "'a arith \<Rightarrow> 'a list \<Rightarrow> bool" where
  "neutral_on A vs =
     (\<forall>v \<in> set vs. f_add A (f_lit A 0) v = v \<and> f_div A v (f_lit A 1) = v)"

definition zero_noise_on :: "'a arith \<Rightarrow> (nat \<Rightarrow> 'a) \<Rightarrow> 'a list \<Rightarrow> bool" where
  "zero_noise_on A z vs =
     (\<forall>v \<in> set vs. \<forall>j. f_add A v (f_add A (f_mul A (z j) (f_lit A 0)) (f_lit A 0)) = v)"

section \<open>A concrete run\<close>

text \<open>
  The inputs on which the theorems below are instantiated, in the idealised arithmetic.
  One layer is observed; its activation \<open>act\<close> has two channels over \<open>1 \<times> 3\<close> pixels,
  with the values \<open>(1, 1)\<close>, \<open>(1, 2)\<close> and \<open>(2, 4)\<close> after the \<open>\<epsilon>\<close> shift, so that its SMOE
  scale map is \<open>[0, w, 2 w]\<close> with \<open>w = act_scale\<close>. The hook holds this activation after
  every forward pass, and the hook state records the inputs the model was run on. The
  input image has the \<open>1 \<times> 3\<close> pixels of the activation, and the resize is bilinear.
\<close>

definition act :: "fval tensor" where
  "act = \<lparr>shape = [1, 2, 1, 3],
          elems = [Fin (1 - eps), Fin (1 - eps), Fin (2 - eps),
                   Fin (1 - eps), Fin (2 - eps), Fin (4 - eps)]\<rparr>"

definition act_scale :: real where
  "act_scale = 3 / 2 * log 2 3 - 9 / 4"

definition unit_combiner :: combiner where
  "unit_combiner = \<lparr>weights = [1], weight_sum = 1, map_num = 1, output_size = [1, 3],
                     resize_mode = ''bilinear'', magnitude = False\<rparr>"

definition example_csmap :: "fval tensor" where
  "example_csmap =
     \<lparr>shape = [1, 1, 3],
      elems = [Fin ((1 + erf (- (1 / sqrt 2))) / 2), Fin (1 / 2), Fin ((1 + erf (1 / sqrt 2)) / 2)]\<rparr>"

definition example_smaps :: "fval tensor" where
  "example_smaps =
     \<lparr>shape = [1, 1, 1, 3],
      elems = [Fin ((1 + erf (- (1 / sqrt 2))) / 2), Fin (1 / 2), Fin ((1 + erf (1 / sqrt 2)) / 2)]\<rparr>"

definition example_input :: "fval tensor" where
  "example_input = \<lparr>shape = [1, 1, 1, 3], elems = [Fin 0, Fin 1, Fin 2]\<rparr>"

definition example_model :: "fval tensor list \<Rightarrow> fval tensor \<Rightarrow> fval tensor list" where
  "example_model h x = h @ [x]"

definition example_hooks :: "fval tensor list \<Rightarrow> fval pydata list" where
  "example_hooks h = [DTensor act]"

definition example_randn :: "nat \<Rightarrow> nat \<Rightarrow> fval" where
  "example_randn i j = Fin (real i - real j)"

definition bilinear :: "fval tensor \<Rightarrow> nat list \<Rightarrow> string \<Rightarrow> error + fval tensor" where
  "bilinear w sz mode = interpolate_bilinear exact w sz"

text \<open>
  Three forward passes of an observed layer, the first two on the device \<^verbatim>\<open>cuda:0\<close> and the
  third on the device \<^verbatim>\<open>cpu\<close>. The output of the second has a batch of two samples.
\<close>

definition batch_output :: "fval tensor" where
  "batch_output = \<lparr>shape = [2, 1], elems = [Fin 1, Fin 2]\<rparr>"

definition first_pass :: "fval forward_event" where
  "first_pass = \<lparr>layer_inputs = [act], layer_output = example_input, layer_device = ''cuda:0''\<rparr>"

definition second_pass :: "fval forward_event" where
  "second_pass =
     \<lparr>layer_inputs = [example_input, act], layer_output = batch_output, layer_device = ''cuda:0''\<rparr>"

definition third_pass :: "fval forward_event" where
  "third_pass = \<lparr>layer_inputs = [], layer_output = act, layer_device = ''cpu''\<rparr>"

section \<open>The observers\<close>

lemma output_call_fields:
  "device (CaptureLayerOutput_call self ev) = device self"
  "post_process (CaptureLayerOutput_call self ev) = post_process self"
  by (simp_all add: CaptureLayerOutput_call_def)

lemma input_call_fields:
  "device (CaptureLayerInput_call self ev) = device self"
  "post_process (CaptureLayerInput_call self ev) = post_process self"
  by (simp_all add: CaptureLayerInput_call_def)

lemma foldl_output_fields:
  "device (foldl CaptureLayerOutput_call self evs) = device self
   \<and> post_process (foldl CaptureLayerOutput_call self evs) = post_process self"
  by (induction evs arbitrary: self) (simp_all add: output_call_fields)

lemma foldl_input_fields:
  "device (foldl CaptureLayerInput_call self evs) = device self
   \<and> post_process (foldl CaptureLayerInput_call self evs) = post_process self"
  by (induction evs arbitrary: self) (simp_all add: input_call_fields)

lemma output_call_data:
  "data (CaptureLayerOutput_call s ev) =
     (if accepts (device s) ev then DTensor (post_process s (layer_output ev)) else data s)"
  by (simp add: CaptureLayerOutput_call_def accepts_def)

lemma input_call_data:
  "data (CaptureLayerInput_call s ev) =
     (if accepts (device s) ev then DList (map (post_process s) (layer_inputs ev)) else data s)"
  by (simp add: CaptureLayerInput_call_def accepts_def)

lemma output_data:
  "data (foldl CaptureLayerOutput_call (CaptureLayerData_init dev pp) evs) =
     (case filter (accepts dev) evs of
        [] \<Rightarrow> DNone
      | m # ms \<Rightarrow> DTensor (pp (layer_output (last (m # ms)))))"
proof (induction evs rule: rev_induct)
  case Nil
  then show ?case by (simp add: CaptureLayerData_init_def)
next
  case (snoc ev evs)
  let ?s = "foldl CaptureLayerOutput_call (CaptureLayerData_init dev pp) evs"
  have f: "device ?s = dev" "post_process ?s = pp"
    using foldl_output_fields [of "CaptureLayerData_init dev pp" evs]
    by (simp_all add: CaptureLayerData_init_def)
  have d: "data (foldl CaptureLayerOutput_call (CaptureLayerData_init dev pp) (evs @ [ev]))
           = (if accepts dev ev then DTensor (pp (layer_output ev)) else data ?s)"
    by (simp add: output_call_data f)
  show ?case
  proof (cases "accepts dev ev")
    case True
    then show ?thesis unfolding d by (cases "filter (accepts dev) evs") simp_all
  next
    case False
    then show ?thesis unfolding d using snoc by simp
  qed
qed

lemma input_data:
  "data (foldl CaptureLayerInput_call (CaptureLayerData_init dev pp) evs) =
     (case filter (accepts dev) evs of
        [] \<Rightarrow> DNone
      | m # ms \<Rightarrow> DList (map pp (layer_inputs (last (m # ms)))))"
proof (induction evs rule: rev_induct)
  case Nil
  then show ?case by (simp add: CaptureLayerData_init_def)
next
  case (snoc ev evs)
  let ?s = "foldl CaptureLayerInput_call (CaptureLayerData_init dev pp) evs"
  have f: "device ?s = dev" "post_process ?s = pp"
    using foldl_input_fields [of "CaptureLayerData_init dev pp" evs]
    by (simp_all add: CaptureLayerData_init_def)
  have d: "data (foldl CaptureLayerInput_call (CaptureLayerData_init dev pp) (evs @ [ev]))
           = (if accepts dev ev then DList (map pp (layer_inputs ev)) else data ?s)"
    by (simp add: input_call_data f)
  show ?case
  proof (cases "accepts dev ev")
    case True
    then show ?thesis unfolding d by (cases "filter (accepts dev) evs") simp_all
  next
    case False
    then show ?thesis unfolding d using snoc by simp
  qed
qed

lemma get_cases:
  "data self = DNone \<Longrightarrow> CaptureLayerData_get self idx = Inr DNone"
  "data self = DList ts \<Longrightarrow> 0 \<le> idx \<Longrightarrow> idx < int (length ts) \<Longrightarrow>
     CaptureLayerData_get self idx = Inr (DTensor (ts ! nat idx))"
  "data self = DTensor t \<Longrightarrow> shape t = n # rest \<Longrightarrow> 0 \<le> idx \<Longrightarrow> idx < int n \<Longrightarrow>
     CaptureLayerData_get self idx = Inr (DTensor (t_select t (nat idx)))"
  by (simp_all add: CaptureLayerData_get_def py_index_def)

section \<open>The loop of SmoothGrad\<close>

lemma score_hooks:
  "SmoothGrad_score A interp model hook_data getCsmap xn h = Inr (h', cs, sm) \<Longrightarrow> h' = model h xn"
  by (auto simp: SmoothGrad_score_def Let_def split: sum.splits prod.splits)

lemma step_Inr:
  assumes "SmoothGrad_step A interp randn model hook_data getCsmap in_tensor stdev i st h
             = Inr (st', h', r_im, r_cs, r_sm)"
  shows "f_ge0 A stdev \<and>
         (\<exists>cs sm. SmoothGrad_score A interp model hook_data getCsmap
                      (perturbed A randn stdev (st ! in_tensor) i) h = Inr (h', cs, sm)
                  \<and> st' = st @ [perturbed A randn stdev (st ! in_tensor) i, cs, sm]
                  \<and> r_im = length st \<and> r_cs = length st + 1 \<and> r_sm = length st + 2)"
  using assms
  by (auto simp: SmoothGrad_step_def torch_normal_def alloc_def perturbed_def Let_def
           split: sum.splits prod.splits if_splits)

lemma step_Inl:
  assumes "SmoothGrad_step A interp randn model hook_data getCsmap in_tensor stdev i st h = Inl (e, st')"
  shows "\<exists>ts. st' = st @ ts"
  using assms
  by (auto simp: SmoothGrad_step_def torch_normal_def alloc_def Let_def
           split: sum.splits prod.splits if_splits)

lemma iteration_maps_hooks:
  assumes "iteration_maps inp (SmoothGrad_score A interp model hook_data getCsmap) is h = Inr (ms, h')"
  shows "h' = foldl (\<lambda>h i. model h (inp i)) h is \<and> length ms = length is"
  using assms
proof (induction "is" arbitrary: h ms)
  case Nil
  then show ?case by simp
next
  case (Cons i "is")
  then show ?case
    by (auto split: sum.splits prod.splits dest!: score_hooks)
qed

lemma loop_debug_Inl:
  assumes "loop_debug (SmoothGrad_step A interp randn model hook_data getCsmap in_tensor stdev)
             is st h (a, b, c) = Inl (e, st')"
  shows "\<exists>ts. st' = st @ ts"
  using assms
proof (induction "is" arbitrary: st h a b c)
  case Nil
  then show ?case by simp
next
  case (Cons i "is")
  show ?case
  proof (cases "SmoothGrad_step A interp randn model hook_data getCsmap in_tensor stdev i st h")
    case (Inl p)
    then show ?thesis using Cons.prems step_Inl [of A interp randn model hook_data getCsmap in_tensor stdev i st h e st']
      by (cases p) simp
  next
    case (Inr q)
    obtain st1 h1 r_im r_cs r_sm where q: "q = (st1, h1, r_im, r_cs, r_sm)" by (cases q) auto
    from step_Inr [OF Inr [unfolded q]] obtain ts1 where st1: "st1 = st @ ts1" by auto
    from Cons.prems Inr q
    have "loop_debug (SmoothGrad_step A interp randn model hook_data getCsmap in_tensor stdev)
            is st1 h1 (a @ [r_cs], b @ [r_sm], c @ [r_im]) = Inl (e, st')" by simp
    from Cons.IH [OF this] obtain ts where "st' = st1 @ ts" by auto
    then show ?thesis using st1 by simp
  qed
qed

lemma loop_debug_Inr:
  assumes "loop_debug (SmoothGrad_step A interp randn model hook_data getCsmap in_tensor stdev)
             is st h (a, b, c) = Inr (st', h', a', b', c')"
      and "in_tensor < length st"
  shows "\<exists>ts ra rb rc ms. st' = st @ ts \<and> a' = a @ ra \<and> b' = b @ rb \<and> c' = c @ rc
           \<and> (\<forall>r \<in> set (ra @ rb @ rc). length st \<le> r \<and> r < length st')
           \<and> iteration_maps (perturbed A randn stdev (st ! in_tensor))
                (SmoothGrad_score A interp model hook_data getCsmap) is h = Inr (ms, h')
           \<and> map ((!) st') ra = map fst ms \<and> map ((!) st') rb = map snd ms
           \<and> map ((!) st') rc = map (perturbed A randn stdev (st ! in_tensor)) is
           \<and> (is \<noteq> [] \<longrightarrow> f_ge0 A stdev)"
  using assms
proof (induction "is" arbitrary: st h a b c)
  case Nil
  then show ?case by simp
next
  case (Cons i "is")
  let ?x = "st ! in_tensor"
  let ?step = "SmoothGrad_step A interp randn model hook_data getCsmap in_tensor stdev"
  obtain st1 h1 r_im r_cs r_sm where s: "?step i st h = Inr (st1, h1, r_im, r_cs, r_sm)"
    and rest: "loop_debug ?step is st1 h1 (a @ [r_cs], b @ [r_sm], c @ [r_im]) = Inr (st', h', a', b', c')"
    using Cons.prems(1) by (auto split: sum.splits prod.splits)
  from step_Inr [OF s] obtain cs sm where ok: "f_ge0 A stdev"
    and sc: "SmoothGrad_score A interp model hook_data getCsmap (perturbed A randn stdev ?x i) h = Inr (h1, cs, sm)"
    and st1: "st1 = st @ [perturbed A randn stdev ?x i, cs, sm]"
    and r: "r_im = length st" "r_cs = length st + 1" "r_sm = length st + 2"
    by auto
  have lt: "in_tensor < length st1" using Cons.prems(2) st1 by simp
  have x1: "st1 ! in_tensor = ?x" using Cons.prems(2) st1 by (simp add: nth_append)
  from Cons.IH [OF rest lt] obtain ts ra rb rc ms where
    IH: "st' = st1 @ ts" "a' = (a @ [r_cs]) @ ra" "b' = (b @ [r_sm]) @ rb" "c' = (c @ [r_im]) @ rc"
        "\<forall>r \<in> set (ra @ rb @ rc). length st1 \<le> r \<and> r < length st'"
        "iteration_maps (perturbed A randn stdev ?x) (SmoothGrad_score A interp model hook_data getCsmap) is h1 = Inr (ms, h')"
        "map ((!) st') ra = map fst ms" "map ((!) st') rb = map snd ms"
        "map ((!) st') rc = map (perturbed A randn stdev ?x) is"
    unfolding x1 by blast
  have cells: "st' ! r_im = perturbed A randn stdev ?x i" "st' ! r_cs = cs" "st' ! r_sm = sm"
    using IH(1) st1 r by (simp_all add: nth_append)
  have len: "length st' = length st + 3 + length ts" "length st1 = length st + 3"
    using IH(1) st1 by simp_all
  have e1: "st' = st @ ([perturbed A randn stdev ?x i, cs, sm] @ ts)" using IH(1) st1 by simp
  have e2: "a' = a @ (r_cs # ra)" "b' = b @ (r_sm # rb)" "c' = c @ (r_im # rc)"
    using IH(2-4) by simp_all
  have "\<And>r. r \<in> set (ra @ rb @ rc) \<Longrightarrow> length st \<le> r \<and> r < length st'"
    using IH(5) len(2) by fastforce
  then have e3: "\<forall>r \<in> set ((r_cs # ra) @ (r_sm # rb) @ (r_im # rc)). length st \<le> r \<and> r < length st'"
    using r len(1) by auto
  have e4: "iteration_maps (perturbed A randn stdev ?x)
              (SmoothGrad_score A interp model hook_data getCsmap) (i # is) h = Inr ((cs, sm) # ms, h')"
    using sc IH(6) by simp
  have e5: "map ((!) st') (r_cs # ra) = map fst ((cs, sm) # ms)"
           "map ((!) st') (r_sm # rb) = map snd ((cs, sm) # ms)"
           "map ((!) st') (r_im # rc) = map (perturbed A randn stdev ?x) (i # is)"
    using IH(7-9) cells by simp_all
  show ?case using e1 e2 e3 e4 e5 ok by blast
qed

lemma iadd_Inr:
  assumes "iadd A st r b = Inr st'"
  shows "st' = st[r := t_zip (f_add A) (st ! r) b] \<and> shape b = shape (st ! r)"
  using assms by (auto simp: iadd_def split: if_splits)

lemma loop_mean_frame:
  assumes "loop_mean A (SmoothGrad_step A interp randn model hook_data getCsmap in_tensor stdev)
             mag oc os is st h = res"
      and "st' = (case res of Inl (e, s) \<Rightarrow> s | Inr (s, h') \<Rightarrow> s)"
  shows "length st \<le> length st' \<and> (\<forall>a < length st. a \<noteq> oc \<longrightarrow> a \<noteq> os \<longrightarrow> st' ! a = st ! a)"
  using assms
proof (induction "is" arbitrary: st h)
  case Nil
  then show ?case by auto
next
  case (Cons i "is")
  let ?step = "SmoothGrad_step A interp randn model hook_data getCsmap in_tensor stdev"
  show ?case
  proof (cases "?step i st h")
    case (Inl p)
    obtain e s where p: "p = (e, s)" by (cases p)
    from step_Inl [OF Inl [unfolded p]] obtain ts where "s = st @ ts" by auto
    then show ?thesis using Cons.prems Inl p by (auto simp: nth_append)
  next
    case (Inr q)
    obtain st1 h1 r_im r_cs r_sm where q: "q = (st1, h1, r_im, r_cs, r_sm)" by (cases q) auto
    from step_Inr [OF Inr [unfolded q]] obtain ts1 where st1: "st1 = st @ ts1" by auto
    let ?b1 = "if mag then t_zip (f_mul A) (st1 ! r_cs) (st1 ! r_cs) else st1 ! r_cs"
    show ?thesis
    proof (cases "iadd A st1 oc ?b1")
      case (Inl e)
      then show ?thesis using Cons.prems Inr q st1 by (auto simp: nth_append)
    next
      case st2: (Inr st2)
      have st2': "st2 = st1[oc := t_zip (f_add A) (st1 ! oc) ?b1]" using iadd_Inr [OF st2] by simp
      let ?b2 = "if mag then t_zip (f_mul A) (st2 ! r_sm) (st2 ! r_sm) else st2 ! r_sm"
      show ?thesis
      proof (cases "iadd A st2 os ?b2")
        case (Inl e)
        then show ?thesis using Cons.prems Inr q st1 st2 st2' by (auto simp: nth_append)
      next
        case st3: (Inr st3)
        have st3': "st3 = st2[os := t_zip (f_add A) (st2 ! os) ?b2]" using iadd_Inr [OF st3] by simp
        have "loop_mean A ?step mag oc os is st3 h1 = res"
          using Cons.prems(1) Inr q st2 st3 by simp
        from Cons.IH [OF this Cons.prems(2)]
        have "length st3 \<le> length st' \<and> (\<forall>a < length st3. a \<noteq> oc \<longrightarrow> a \<noteq> os \<longrightarrow> st' ! a = st3 ! a)" .
        moreover have "length st3 = length st + length ts1" using st3' st2' st1 by simp
        moreover have "\<forall>a < length st. a \<noteq> oc \<longrightarrow> a \<noteq> os \<longrightarrow> st3 ! a = st ! a"
          using st3' st2' st1 by (simp add: nth_append)
        ultimately show ?thesis by auto
      qed
    qed
  qed
qed

lemma loop_mean_Inr:
  assumes "loop_mean A (SmoothGrad_step A interp randn model hook_data getCsmap in_tensor stdev)
             mag oc os is st h = Inr (st', h')"
      and "in_tensor < length st" "oc < length st" "os < length st"
      and "oc \<noteq> os" "in_tensor \<noteq> oc" "in_tensor \<noteq> os"
  shows "\<exists>ms. iteration_maps (perturbed A randn stdev (st ! in_tensor))
                (SmoothGrad_score A interp model hook_data getCsmap) is h = Inr (ms, h')
           \<and> st' ! oc = foldl (t_zip (f_add A)) (st ! oc)
                          (map (\<lambda>(cs, sm). if mag then t_square A cs else cs) ms)
           \<and> st' ! os = foldl (t_zip (f_add A)) (st ! os)
                          (map (\<lambda>(cs, sm). if mag then t_square A sm else sm) ms)
           \<and> (\<forall>(cs, sm) \<in> set ms. shape cs = shape (st ! oc) \<and> shape sm = shape (st ! os))
           \<and> oc < length st' \<and> os < length st'
           \<and> (is \<noteq> [] \<longrightarrow> f_ge0 A stdev)"
  using assms
proof (induction "is" arbitrary: st h)
  case Nil
  then show ?case by simp
next
  case (Cons i "is")
  let ?x = "st ! in_tensor"
  let ?step = "SmoothGrad_step A interp randn model hook_data getCsmap in_tensor stdev"
  obtain st1 h1 r_im r_cs r_sm st2 st3 where s: "?step i st h = Inr (st1, h1, r_im, r_cs, r_sm)"
    and a1: "iadd A st1 oc (if mag then t_zip (f_mul A) (st1 ! r_cs) (st1 ! r_cs) else st1 ! r_cs) = Inr st2"
    and a2: "iadd A st2 os (if mag then t_zip (f_mul A) (st2 ! r_sm) (st2 ! r_sm) else st2 ! r_sm) = Inr st3"
    and rest: "loop_mean A ?step mag oc os is st3 h1 = Inr (st', h')"
    using Cons.prems(1) by (auto split: sum.splits prod.splits)
  from step_Inr [OF s] obtain cs sm where ok: "f_ge0 A stdev"
    and sc: "SmoothGrad_score A interp model hook_data getCsmap (perturbed A randn stdev ?x i) h = Inr (h1, cs, sm)"
    and st1: "st1 = st @ [perturbed A randn stdev ?x i, cs, sm]"
    and r: "r_im = length st" "r_cs = length st + 1" "r_sm = length st + 2"
    by auto
  note lt = Cons.prems(2-7)
  have c1: "st1 ! r_cs = cs" "st1 ! r_sm = sm" "st1 ! oc = st ! oc" "st1 ! os = st ! os"
           "st1 ! in_tensor = ?x"
    using st1 r lt by (simp_all add: nth_append)
  let ?b1 = "if mag then t_square A cs else cs"
  let ?b2 = "if mag then t_square A sm else sm"
  have b1: "(if mag then t_zip (f_mul A) (st1 ! r_cs) (st1 ! r_cs) else st1 ! r_cs) = ?b1"
    by (simp add: c1 t_square_def)
  have st2: "st2 = st1[oc := t_zip (f_add A) (st ! oc) ?b1]" and sh1: "shape ?b1 = shape (st ! oc)"
    using iadd_Inr [OF a1 [unfolded b1]] c1(3) by simp_all
  have c2: "st2 ! r_sm = sm" "st2 ! os = st ! os" "st2 ! in_tensor = ?x"
    using st2 c1 r lt by (simp_all add: nth_list_update)
  have b2: "(if mag then t_zip (f_mul A) (st2 ! r_sm) (st2 ! r_sm) else st2 ! r_sm) = ?b2"
    by (simp add: c2 t_square_def)
  have st3: "st3 = st2[os := t_zip (f_add A) (st ! os) ?b2]" and sh2: "shape ?b2 = shape (st ! os)"
    using iadd_Inr [OF a2 [unfolded b2]] c2(2) by simp_all
  have len3: "length st3 = length st + 3" using st3 st2 st1 by simp
  have c3: "st3 ! oc = t_zip (f_add A) (st ! oc) ?b1" "st3 ! os = t_zip (f_add A) (st ! os) ?b2"
           "st3 ! in_tensor = ?x"
    using st3 st2 st1 c2 lt by (simp_all add: nth_list_update)
  have shp: "shape (st3 ! oc) = shape (st ! oc)" "shape (st3 ! os) = shape (st ! os)"
    using c3 by (simp_all add: t_zip_def)
  have shcs: "shape cs = shape (st ! oc)" "shape sm = shape (st ! os)"
    using sh1 sh2 by (simp_all add: t_square_def t_zip_def split: if_splits)
  have "\<exists>ms. iteration_maps (perturbed A randn stdev (st3 ! in_tensor))
                (SmoothGrad_score A interp model hook_data getCsmap) is h1 = Inr (ms, h')
           \<and> st' ! oc = foldl (t_zip (f_add A)) (st3 ! oc)
                          (map (\<lambda>(cs, sm). if mag then t_square A cs else cs) ms)
           \<and> st' ! os = foldl (t_zip (f_add A)) (st3 ! os)
                          (map (\<lambda>(cs, sm). if mag then t_square A sm else sm) ms)
           \<and> (\<forall>(cs, sm) \<in> set ms. shape cs = shape (st3 ! oc) \<and> shape sm = shape (st3 ! os))
           \<and> oc < length st' \<and> os < length st'
           \<and> (is \<noteq> [] \<longrightarrow> f_ge0 A stdev)"
    using lt len3 by (intro Cons.IH [OF rest]) simp_all
  then obtain ms where
    IH0: "iteration_maps (perturbed A randn stdev (st3 ! in_tensor))
                (SmoothGrad_score A interp model hook_data getCsmap) is h1 = Inr (ms, h')"
        "st' ! oc = foldl (t_zip (f_add A)) (st3 ! oc)
                          (map (\<lambda>(cs, sm). if mag then t_square A cs else cs) ms)"
        "st' ! os = foldl (t_zip (f_add A)) (st3 ! os)
                          (map (\<lambda>(cs, sm). if mag then t_square A sm else sm) ms)"
        "\<forall>(cs, sm) \<in> set ms. shape cs = shape (st3 ! oc) \<and> shape sm = shape (st3 ! os)"
        "oc < length st'" "os < length st'"
    by blast
  have e1: "iteration_maps (perturbed A randn stdev ?x)
              (SmoothGrad_score A interp model hook_data getCsmap) (i # is) h = Inr ((cs, sm) # ms, h')"
    using sc IH0(1) c3(3) by simp
  have e2: "st' ! oc = foldl (t_zip (f_add A)) (st ! oc)
                          (map (\<lambda>(cs, sm). if mag then t_square A cs else cs) ((cs, sm) # ms))"
           "st' ! os = foldl (t_zip (f_add A)) (st ! os)
                          (map (\<lambda>(cs, sm). if mag then t_square A sm else sm) ((cs, sm) # ms))"
    using IH0(2,3) c3(1,2) by simp_all
  have e3: "\<forall>(cs, sm) \<in> set ((cs, sm) # ms). shape cs = shape (st ! oc) \<and> shape sm = shape (st ! os)"
    using IH0(4) shp shcs by simp
  show ?case using e1 e2 e3 IH0(5,6) ok by blast
qed

lemma call_mean:
  assumes call: "SmoothGrad_call A interp randn model hook_data self st in_tensor h weights' False
                   = Inr (out_csmap, out_smaps, ret_image, st', h')"
      and lt: "in_tensor < length st"
  shows "\<exists>getCsmap mx mn ms.
           4 \<le> length (shape (st ! in_tensor))
         \<and> CombineSaliencyMaps_init A
               [int (shape (st ! in_tensor) ! 2), int (shape (st ! in_tensor) ! 3)]
               (int (length (hook_data h))) weights' ''bilinear'' (maps_magnitude self)
             = Inr getCsmap
         \<and> t_max A (st ! in_tensor) = Inr mx \<and> t_min A (st ! in_tensor) = Inr mn
         \<and> iteration_maps
               (perturbed A randn (f_mul A (f_lit A (stdev_spread self)) (f_sub A mx mn)) (st ! in_tensor))
               (SmoothGrad_score A interp model hook_data getCsmap) [0..<nat (iters self)] h
             = Inr (ms, h')
         \<and> out_csmap = OTensor (length st) \<and> out_smaps = OTensor (length st + 1)
         \<and> ret_image = [] \<and> length st + 1 < length st'
         \<and> st' ! length st =
             t_div_int A
               (foldl (t_zip (f_add A))
                  (zeros A [1, shape (st ! in_tensor) ! 2, shape (st ! in_tensor) ! 3])
                  (map (\<lambda>(cs, sm). if sg_magnitude self then t_square A cs else cs) ms))
               (iters self)
         \<and> st' ! (length st + 1) =
             t_div_int A
               (foldl (t_zip (f_add A))
                  (zeros A [1, length (hook_data h), shape (st ! in_tensor) ! 2,
                          shape (st ! in_tensor) ! 3])
                  (map (\<lambda>(cs, sm). if sg_magnitude self then t_square A sm else sm) ms))
               (iters self)
         \<and> (\<forall>(cs, sm) \<in> set ms.
               shape cs = [1, shape (st ! in_tensor) ! 2, shape (st ! in_tensor) ! 3]
             \<and> shape sm = [1, length (hook_data h), shape (st ! in_tensor) ! 2,
                           shape (st ! in_tensor) ! 3])"
proof -
  let ?x = "st ! in_tensor"
  let ?H = "shape ?x ! 2" and ?W = "shape ?x ! 3" and ?L = "length (hook_data h)"
  let ?z1 = "zeros A [1, ?H, ?W]" and ?z2 = "zeros A [1, ?L, ?H, ?W]"
  let ?st0 = "st @ [?z1, ?z2]"
  from call have rank: "4 \<le> length (shape ?x)"
    by (auto simp: SmoothGrad_call_def split: if_splits)
  from call rank obtain getCsmap mx mn stl where
    init: "CombineSaliencyMaps_init A [int ?H, int ?W] (int ?L) weights' ''bilinear''
             (maps_magnitude self) = Inr getCsmap"
    and mx: "t_max A ?x = Inr mx" and mn: "t_min A ?x = Inr mn"
    and loop: "loop_mean A (SmoothGrad_step A interp randn model hook_data getCsmap in_tensor
                 (f_mul A (f_lit A (stdev_spread self)) (f_sub A mx mn)))
                 (sg_magnitude self) (length st) (length st + 1) [0..<nat (iters self)] ?st0 h
               = Inr (stl, h')"
    and fin: "st' = stl[length st := t_div_int A (stl ! length st) (iters self),
                        length st + 1 := t_div_int A
                           (stl[length st := t_div_int A (stl ! length st) (iters self)] ! (length st + 1))
                           (iters self)]"
    and outs: "out_csmap = OTensor (length st)" "out_smaps = OTensor (length st + 1)" "ret_image = []"
    by (auto simp: SmoothGrad_call_def Let_def alloc_def t_div_int_def
             split: sum.splits prod.splits if_splits)
  have x0: "?st0 ! in_tensor = ?x" using lt by (simp add: nth_append)
  have "\<exists>ms. iteration_maps (perturbed A randn (f_mul A (f_lit A (stdev_spread self)) (f_sub A mx mn)) (?st0 ! in_tensor))
                (SmoothGrad_score A interp model hook_data getCsmap) [0..<nat (iters self)] h = Inr (ms, h')
           \<and> stl ! length st = foldl (t_zip (f_add A)) (?st0 ! length st)
                          (map (\<lambda>(cs, sm). if sg_magnitude self then t_square A cs else cs) ms)
           \<and> stl ! (length st + 1) = foldl (t_zip (f_add A)) (?st0 ! (length st + 1))
                          (map (\<lambda>(cs, sm). if sg_magnitude self then t_square A sm else sm) ms)
           \<and> (\<forall>(cs, sm) \<in> set ms. shape cs = shape (?st0 ! length st) \<and> shape sm = shape (?st0 ! (length st + 1)))
           \<and> length st < length stl \<and> length st + 1 < length stl
           \<and> ([0..<nat (iters self)] \<noteq> [] \<longrightarrow> f_ge0 A (f_mul A (f_lit A (stdev_spread self)) (f_sub A mx mn)))"
    using lt by (intro loop_mean_Inr [OF loop]) simp_all
  then obtain ms where
    R: "iteration_maps (perturbed A randn (f_mul A (f_lit A (stdev_spread self)) (f_sub A mx mn)) ?x)
                (SmoothGrad_score A interp model hook_data getCsmap) [0..<nat (iters self)] h = Inr (ms, h')"
       "stl ! length st = foldl (t_zip (f_add A)) ?z1
                          (map (\<lambda>(cs, sm). if sg_magnitude self then t_square A cs else cs) ms)"
       "stl ! (length st + 1) = foldl (t_zip (f_add A)) ?z2
                          (map (\<lambda>(cs, sm). if sg_magnitude self then t_square A sm else sm) ms)"
       "\<forall>(cs, sm) \<in> set ms. shape cs = shape ?z1 \<and> shape sm = shape ?z2"
       "length st < length stl" "length st + 1 < length stl"
    unfolding x0 by (auto simp: nth_append)
  have f1: "st' ! length st = t_div_int A (stl ! length st) (iters self)"
    using fin R(5,6) by simp
  have f2: "st' ! (length st + 1) = t_div_int A (stl ! (length st + 1)) (iters self)"
    using fin R(5,6) by simp
  have f3: "length st + 1 < length st'" using fin R(6) by simp
  show ?thesis
    apply (rule exI [of _ getCsmap], rule exI [of _ mx], rule exI [of _ mn], rule exI [of _ ms])
    using rank init mx mn R(1,4) outs f1 f2 f3 unfolding R(2,3) by (simp add: zeros_def)
qed

lemma call_debug:
  assumes call: "SmoothGrad_call A interp randn model hook_data self st in_tensor h weights' True
                   = Inr (out_csmap, out_smaps, ret_image, st', h')"
      and lt: "in_tensor < length st"
  shows "\<exists>getCsmap mx mn ms ts ra rb.
           4 \<le> length (shape (st ! in_tensor))
         \<and> CombineSaliencyMaps_init A
               [int (shape (st ! in_tensor) ! 2), int (shape (st ! in_tensor) ! 3)]
               (int (length (hook_data h))) weights' ''bilinear'' (maps_magnitude self)
             = Inr getCsmap
         \<and> t_max A (st ! in_tensor) = Inr mx \<and> t_min A (st ! in_tensor) = Inr mn
         \<and> iteration_maps
               (perturbed A randn (f_mul A (f_lit A (stdev_spread self)) (f_sub A mx mn)) (st ! in_tensor))
               (SmoothGrad_score A interp model hook_data getCsmap) [0..<nat (iters self)] h
             = Inr (ms, h')
         \<and> st' = st @ ts
         \<and> out_csmap = OList ra \<and> out_smaps = OList rb
         \<and> (\<forall>r \<in> set (ra @ rb @ ret_image). length st \<le> r \<and> r < length st')
         \<and> map ((!) st') ra = map fst ms \<and> map ((!) st') rb = map snd ms
         \<and> map ((!) st') ret_image =
             map (perturbed A randn (f_mul A (f_lit A (stdev_spread self)) (f_sub A mx mn)) (st ! in_tensor))
               [0..<nat (iters self)]"
proof -
  let ?x = "st ! in_tensor"
  let ?H = "shape ?x ! 2" and ?W = "shape ?x ! 3" and ?L = "length (hook_data h)"
  from call have rank: "4 \<le> length (shape ?x)"
    by (auto simp: SmoothGrad_call_def split: if_splits)
  from call rank obtain getCsmap mx mn ra rb where
    init: "CombineSaliencyMaps_init A [int ?H, int ?W] (int ?L) weights' ''bilinear''
             (maps_magnitude self) = Inr getCsmap"
    and mx: "t_max A ?x = Inr mx" and mn: "t_min A ?x = Inr mn"
    and loop: "loop_debug (SmoothGrad_step A interp randn model hook_data getCsmap in_tensor
                 (f_mul A (f_lit A (stdev_spread self)) (f_sub A mx mn)))
                 [0..<nat (iters self)] st h ([], [], [])
               = Inr (st', h', ra, rb, ret_image)"
    and outs: "out_csmap = OList ra" "out_smaps = OList rb"
    by (auto simp: SmoothGrad_call_def Let_def split: sum.splits prod.splits if_splits)
  from loop_debug_Inr [OF loop lt] obtain ts ms where
    "st' = st @ ts"
    "\<forall>r \<in> set (ra @ rb @ ret_image). length st \<le> r \<and> r < length st'"
    "iteration_maps (perturbed A randn (f_mul A (f_lit A (stdev_spread self)) (f_sub A mx mn)) ?x)
       (SmoothGrad_score A interp model hook_data getCsmap) [0..<nat (iters self)] h = Inr (ms, h')"
    "map ((!) st') ra = map fst ms" "map ((!) st') rb = map snd ms"
    "map ((!) st') ret_image =
       map (perturbed A randn (f_mul A (f_lit A (stdev_spread self)) (f_sub A mx mn)) ?x) [0..<nat (iters self)]"
    by auto
  then show ?thesis using rank init mx mn outs by blast
qed

lemma loop_debug_prefix:
  assumes "loop_debug (SmoothGrad_step A interp randn model hook_data getCsmap in_tensor stdev)
             is st h (a, b, c) = Inr (st', h', a', b', c')"
  shows "\<exists>ts. st' = st @ ts"
  using assms
proof (induction "is" arbitrary: st h a b c)
  case Nil
  then show ?case by simp
next
  case (Cons i "is")
  let ?step = "SmoothGrad_step A interp randn model hook_data getCsmap in_tensor stdev"
  obtain st1 h1 r_im r_cs r_sm where s: "?step i st h = Inr (st1, h1, r_im, r_cs, r_sm)"
    and rest: "loop_debug ?step is st1 h1 (a @ [r_cs], b @ [r_sm], c @ [r_im]) = Inr (st', h', a', b', c')"
    using Cons.prems(1) by (auto split: sum.splits prod.splits)
  from step_Inr [OF s] obtain ts1 where "st1 = st @ ts1" by auto
  moreover from Cons.IH [OF rest] obtain ts where "st' = st1 @ ts" by auto
  ultimately show ?case by simp
qed

lemma prefix_by_nth:
  assumes "length st \<le> length st'" "\<forall>a < length st. st' ! a = st ! a"
  shows "take (length st) st' = st"
  using assms by (simp add: list_eq_iff_nth_eq)

lemma call_frame:
  "take (length st)
     (final_store (SmoothGrad_call A interp randn model hook_data self st in_tensor h weights' debug))
   = st"
proof -
  let ?x = "st ! in_tensor"
  let ?H = "shape ?x ! 2" and ?W = "shape ?x ! 3" and ?L = "length (hook_data h)"
  let ?call = "SmoothGrad_call A interp randn model hook_data self st in_tensor h weights' debug"
  show ?thesis
  proof (cases "length (shape ?x) < 4")
    case True
    then show ?thesis by (simp add: SmoothGrad_call_def)
  next
    case rank: False
    show ?thesis
    proof (cases "CombineSaliencyMaps_init A [int ?H, int ?W] (int ?L) weights' ''bilinear''
                    (maps_magnitude self)")
      case (Inl e)
      then show ?thesis using rank by (simp add: SmoothGrad_call_def Let_def)
    next
      case (Inr getCsmap)
      show ?thesis
      proof (cases "t_max A ?x")
        case (Inl e)
        then show ?thesis using rank Inr by (simp add: SmoothGrad_call_def Let_def)
      next
        case mx: (Inr mx)
        show ?thesis
        proof (cases "t_min A ?x")
          case (Inl e)
          then show ?thesis using rank Inr mx by (simp add: SmoothGrad_call_def Let_def)
        next
          case mn: (Inr mn)
          let ?step = "SmoothGrad_step A interp randn model hook_data getCsmap in_tensor
                         (f_mul A (f_lit A (stdev_spread self)) (f_sub A mx mn))"
          show ?thesis
          proof (cases debug)
            case True
            let ?r = "loop_debug ?step [0..<nat (iters self)] st h ([], [], [])"
            show ?thesis
            proof (cases ?r)
              case (Inl p)
              obtain e s where p: "p = (e, s)" by (cases p)
              from loop_debug_Inl [OF Inl [unfolded p]] obtain ts where "s = st @ ts" by auto
              then show ?thesis using rank Inr mx mn True Inl p
                by (simp add: SmoothGrad_call_def Let_def)
            next
              case q: (Inr q)
              obtain s h1 a b c where qq: "q = (s, h1, a, b, c)" by (cases q) auto
              have "\<exists>ts. s = st @ ts"
                using loop_debug_prefix [OF q [unfolded qq]] .
              then show ?thesis using rank Inr mx mn True q qq
                by (auto simp: SmoothGrad_call_def Let_def)
            qed
          next
            case False
            let ?st0 = "st @ [zeros A [1, ?H, ?W], zeros A [1, ?L, ?H, ?W]]"
            let ?r = "loop_mean A ?step (sg_magnitude self) (length st) (length st + 1)
                        [0..<nat (iters self)] ?st0 h"
            define s where "s = (case ?r of Inl (e, s) \<Rightarrow> s | Inr (s, h') \<Rightarrow> s)"
            have fr: "length ?st0 \<le> length s
                      \<and> (\<forall>a < length ?st0. a \<noteq> length st \<longrightarrow> a \<noteq> length st + 1 \<longrightarrow> s ! a = ?st0 ! a)"
              using loop_mean_frame [OF refl s_def] .
            then have pre: "length st \<le> length s" "\<forall>a < length st. s ! a = st ! a"
              by (auto simp: nth_append)
            show ?thesis
            proof (cases ?r)
              case (Inl p)
              obtain e s1 where p: "p = (e, s1)" by (cases p)
              have "s1 = s" using Inl p by (simp add: s_def)
              then have "take (length st) s1 = st" using pre by (intro prefix_by_nth) simp_all
              then show ?thesis using rank Inr mx mn False Inl p
                by (simp add: SmoothGrad_call_def Let_def alloc_def)
            next
              case q: (Inr q)
              obtain s1 h1 where qq: "q = (s1, h1)" by (cases q)
              have s1: "s1 = s" using q qq by (simp add: s_def)
              let ?d = "\<lambda>t. t_map (\<lambda>v. f_div A v (f_lit A (of_int (iters self)))) t"
              let ?s2 = "s1[length st := ?d (s1 ! length st)]"
              let ?s3 = "?s2[length st + 1 := ?d (?s2 ! (length st + 1))]"
              have "take (length st) ?s3 = st"
                using pre s1 by (intro prefix_by_nth) simp_all
              then show ?thesis using rank Inr mx mn False q qq
                by (simp add: SmoothGrad_call_def Let_def alloc_def)
            qed
          qed
        qed
      qed
    qed
  qed
qed


section \<open>Zero noise and a single iteration\<close>

lemma map2_add_zero_left:
  assumes "length xs \<le> n" "\<forall>v \<in> set xs. f_add A (f_lit A 0) v = v"
  shows "map2 (f_add A) (replicate n (f_lit A 0)) xs = xs"
  using assms
proof (induction xs arbitrary: n)
  case Nil
  then show ?case by simp
next
  case (Cons x xs)
  then obtain m where "n = Suc m" by (cases n) auto
  then show ?case using Cons by simp
qed

lemma t_zip_zeros:
  assumes "shape t = sh" "length (elems t) \<le> prod_list sh"
      and "\<forall>v \<in> set (elems t). f_add A (f_lit A 0) v = v"
  shows "t_zip (f_add A) (zeros A sh) t = t"
  using assms by (simp add: t_zip_def zeros_def map2_add_zero_left)

lemma t_div_int_one:
  assumes "\<forall>v \<in> set (elems t). f_div A v (f_lit A 1) = v"
  shows "t_div_int A t 1 = t"
  using assms by (simp add: t_div_int_def t_map_def map_idI)

lemma map2_noise_zero:
  assumes "\<forall>v \<in> set xs. \<forall>j. f_add A v (g j) = v" "length xs = length js"
  shows "map2 (f_add A) xs (map g js) = xs"
  using assms
proof (induction xs arbitrary: js)
  case Nil
  then show ?case by simp
next
  case (Cons x xs)
  then obtain k ks where "js = k # ks" by (cases js) auto
  then show ?case using Cons by simp
qed

lemma perturbed_zero:
  assumes "wf_tensor x"
      and "\<forall>v \<in> set (elems x). \<forall>j.
             f_add A v (f_add A (f_mul A (randn i j) (f_lit A 0)) (f_lit A 0)) = v"
  shows "perturbed A randn (f_lit A 0) x i = x"
proof -
  have "map2 (f_add A) (elems x)
          (map (\<lambda>j. f_add A (f_mul A (randn i j) (f_lit A 0)) (f_lit A 0))
             [0..<prod_list (shape x)]) = elems x"
    using assms by (intro map2_noise_zero) (simp_all add: wf_tensor_def)
  then show ?thesis by (simp add: perturbed_def normal_sample_def t_zip_def)
qed

lemma length_concat_le:
  assumes "\<forall>x \<in> set xs. length (f x) \<le> n"
  shows "length (concat (map f xs)) \<le> length xs * n"
  using assms by (induction xs) (simp_all add: add_mono)

lemma combine_loop_bounds:
  assumes "combine_loop A interp self square smaps is (cm, ww) = Inr (cm', ww')"
  shows "shape cm' = shape cm \<and> length (elems cm') \<le> length (elems cm)
         \<and> length ww' = length ww + length is
         \<and> (\<forall>w \<in> set ww'. w \<in> set ww \<or> shape w = shape cm)"
  using assms
proof (induction "is" arbitrary: cm ww)
  case Nil
  then show ?case by simp
next
  case (Cons i "is")
  from Cons.prems obtain w where
    sh: "shape w = shape cm"
    and rest: "combine_loop A interp self square smaps is
                 (t_zip (f_add A) cm (t_map (\<lambda>v. f_mul A v (f_lit A (weights self ! i))) w), ww @ [w])
               = Inr (cm', ww')"
    by (auto simp: Let_def split: if_splits sum.splits)
  from Cons.IH [OF rest] show ?case using sh by (auto simp: t_zip_def)
qed

lemma forward_bounds:
  assumes "CombineSaliencyMaps_forward A interp self smaps = Inr (cm, ww)"
  shows "length (elems cm) \<le> prod_list (shape cm) \<and> length (elems ww) \<le> prod_list (shape ww)"
proof -
  let ?bn = "shape (smaps ! 0) ! 0"
  let ?oh = "nat (output_size self ! 0)" and ?ow = "nat (output_size self ! 1)"
  from assms obtain cm1 ww1 where
    len: "int (length smaps) = map_num self" and ne: "smaps \<noteq> []"
    and loop: "combine_loop A interp self (magnitude self) smaps [0..<length smaps]
                 (zeros A [?bn, 1, ?oh, ?ow], []) = Inr (cm1, ww1)"
    and cm: "cm = t_view [?bn, ?oh, ?ow] (t_map (\<lambda>v. f_div A v (f_lit A (weight_sum self))) cm1)"
    and ww: "ww = t_view [?bn, nat (map_num self), ?oh, ?ow] (stack_dim1 ww1)"
    by (auto simp: CombineSaliencyMaps_forward_def Let_def split: if_splits sum.splits prod.splits)
  from combine_loop_bounds [OF loop]
  have b: "length (elems cm1) \<le> ?bn * (?oh * ?ow)" "length ww1 = length smaps"
          "\<forall>w \<in> set ww1. shape w = [?bn, 1, ?oh, ?ow]"
    by (simp_all add: zeros_def)
  have "ww1 \<noteq> []" using b(2) ne by auto
  then have hd: "shape (hd ww1) = [?bn, 1, ?oh, ?ow]" using b(3) by (cases ww1) simp_all
  have "length (elems (stack_dim1 ww1)) \<le> ?bn * (length ww1 * (?oh * ?ow))"
    unfolding stack_dim1_def Let_def hd
    by (simp, intro order_trans [OF length_concat_le [where n = "length ww1 * (?oh * ?ow)"]])
       (auto intro!: length_concat_le)
  moreover have "nat (map_num self) = length smaps" using len by auto
  ultimately show ?thesis using b(1,2) cm ww by (simp add: t_view_def t_map_def mult.assoc)
qed

lemma score_single_pass:
  assumes "SmoothGrad_score A interp model hook_data getCsmap x h = Inr (h', cs, sm)"
  shows "single_pass A interp model hook_data getCsmap x h = Inr (cs, sm)
         \<and> length (elems cs) \<le> prod_list (shape cs) \<and> length (elems sm) \<le> prod_list (shape sm)"
  using assms forward_bounds [of A interp getCsmap _ cs sm]
  by (auto simp: SmoothGrad_score_def single_pass_def Let_def split: sum.splits prod.splits)

section \<open>Evaluation of the concrete run\<close>

lemma exact_simps:
  "f_lit exact = Fin" "f_add exact = fadd" "f_sub exact = fsub" "f_mul exact = fmul"
  "f_div exact = fdiv" "f_log exact = flog" "f_log2 exact = flog2" "f_exp exact = fexp"
  "f_sqrt exact = fsqrt" "f_erf exact = ferf" "f_relu exact = frelu"
  "f_square exact = (\<lambda>v. fmul v v)" "f_mean exact = fmean" "f_std exact = fstd"
  "f_max exact = (\<lambda>vs. foldl fmax (hd vs) (tl vs))"
  "f_min exact = (\<lambda>vs. foldl fmin (hd vs) (tl vs))" "f_ge0 exact = std_ok" "py_add exact = (+)"
  by (simp_all add: exact_def)

lemma upt_small: "[0..<4] = [0, 1, 2, 3]" "[0..<2] = [0, 1]" "[0..<1] = [0]" "[0..<3] = [0, 1, 2]"
  by (simp_all add: upt_rec)

lemma log2_facts: "log 2 4 = 2" "log 2 (3 / 2) = log 2 3 - 1"
proof -
  have "log 2 (2 ^ 2) = 2" by (subst log_nat_power) simp_all
  then show "log 2 4 = 2" by simp
  show "log 2 (3 / 2) = log 2 3 - 1" by (simp add: log_divide)
qed

lemma act_scale_pos: "0 < act_scale"
proof -
  have "((2::real) powr (3 / 2)) ^ 2 = (2 powr (3 / 2)) powr 2"
    by (simp add: powr_numeral)
  also have "\<dots> = 2 powr 3" by (simp add: powr_powr)
  also have "\<dots> = 8" by (simp add: powr_numeral)
  finally have "((2::real) powr (3 / 2)) ^ 2 < 3 ^ 2" by simp
  then have h: "(2::real) powr (3 / 2) < 3" by (rule power_less_imp_less_base) simp
  have "3 / 2 < log 2 (3::real)" by (rule iffD2 [OF less_log_iff]) (use h in simp_all)
  then show ?thesis by (simp add: act_scale_def)
qed

lemma SMOE_act:
  "SMOEScaleMap_forward exact False (DTensor act)
     = Inr \<lparr>shape = [1, 1, 3], elems = [Fin 0, Fin act_scale, Fin (2 * act_scale)]\<rparr>"
  by (simp add: exact_simps act_def SMOEScaleMap_forward_def Let_def reduce_dim1_def channel_def t_map_def
      t_zip_def fmean_def fsum_def fsub_def upt_small log2_facts act_scale_def)

lemma erf_zero: "erf 0 = 0"
  by (simp add: erf_def)

lemma Normalize_field:
  assumes "0 < w"
  shows "Normalize2D_forward exact (DTensor \<lparr>shape = [1, 1, 3], elems = [Fin 0, Fin w, Fin (2 * w)]\<rparr>)
     = Inr \<lparr>shape = [1, 1, 3],
            elems = [Fin ((1 + erf (- (1 / sqrt 2))) / 2), Fin (1 / 2),
                     Fin ((1 + erf (1 / sqrt 2)) / 2)]\<rparr>"
  using assms
  by (simp add: exact_simps Normalize2D_forward_def Let_def t_view_def reduce_dim1_def channel_def t_map_def
     t_rowwise_def fmean_def fstd_def fsum_def fsub_def signed_inf_def upt_small erf_zero)

lemma bilinear_same_size:
  "interpolate_bilinear exact \<lparr>shape = [1, 1, 1, 3], elems = [Fin a, Fin b, Fin c]\<rparr> [1, 3]
     = Inr \<lparr>shape = [1, 1, 1, 3], elems = [Fin a, Fin b, Fin c]\<rparr>"
  by (simp add: exact_simps interpolate_bilinear_def Let_def bilinear_at_def source_index_def upt_small)

lemmas bilinear_same_size_Suc = bilinear_same_size [unfolded One_nat_def]

text \<open>An infinite value does not pass a resize to the same size: its neighbour of weight zero
  contributes \<open>0 * inf\<close>.\<close>

lemma bilinear_infinite:
  "interpolate_bilinear exact \<lparr>shape = [1, 1, 1, 1], elems = [PInf]\<rparr> [1, 1]
     = Inr \<lparr>shape = [1, 1, 1, 1], elems = [NaN]\<rparr>"
  by (simp add: interpolate_bilinear_def Let_def bilinear_at_def source_index_def upt_small
        exact_simps signed_inf_def)

lemma replicate_3: "replicate 3 x = [x, x, x]"
  by (simp add: numeral_3_eq_3)

lemma init_unit:
  "CombineSaliencyMaps_init exact [1, 3] 1 WNone ''bilinear'' False = Inr unit_combiner"
  by (simp add: exact_simps CombineSaliencyMaps_init_def unit_combiner_def)

lemma forward_example:
  "CombineSaliencyMaps_forward exact bilinear unit_combiner
     [\<lparr>shape = [1, 1, 3], elems = [Fin a, Fin b, Fin c]\<rparr>]
   = Inr (\<lparr>shape = [1, 1, 3], elems = [Fin a, Fin b, Fin c]\<rparr>,
          \<lparr>shape = [1, 1, 1, 3], elems = [Fin a, Fin b, Fin c]\<rparr>)"
  by (simp add: exact_simps CombineSaliencyMaps_forward_def unit_combiner_def Let_def zeros_def reshape_def
      t_view_def bilinear_def bilinear_same_size_Suc t_zip_def t_map_def stack_dim1_def upt_small
      replicate_3)

lemmas field_steps =
  SMOE_act [unfolded One_nat_def]
  Normalize_field [OF act_scale_pos, unfolded One_nat_def]
  forward_example [unfolded One_nat_def]

lemma score_example:
  "SmoothGrad_score exact bilinear example_model example_hooks unit_combiner x h
     = Inr (h @ [x], example_csmap, example_smaps)"
  by (simp add: SmoothGrad_score_def example_model_def example_hooks_def field_steps
      example_csmap_def example_smaps_def)

lemma single_pass_example:
  "single_pass exact bilinear example_model example_hooks unit_combiner x h
     = Inr (example_csmap, example_smaps)"
  by (simp add: single_pass_def example_model_def example_hooks_def field_steps
      example_csmap_def example_smaps_def)

lemma step_example:
  assumes "f_ge0 exact stdev"
  shows "SmoothGrad_step exact bilinear randn example_model example_hooks unit_combiner in_tensor stdev i st h
     = Inr (st @ [perturbed exact randn stdev (st ! in_tensor) i, example_csmap, example_smaps],
            h @ [perturbed exact randn stdev (st ! in_tensor) i],
            length st, length st + 1, length st + 2)"
  using assms
  by (simp add: SmoothGrad_step_def torch_normal_def alloc_def score_example perturbed_def)

lemma iteration_maps_example:
  "iteration_maps inp (SmoothGrad_score exact bilinear example_model example_hooks unit_combiner) is h
     = Inr (map (\<lambda>i. (example_csmap, example_smaps)) is, h @ map inp is)"
  by (induction "is" arbitrary: h) (simp_all add: score_example)

lemma loop_debug_example:
  assumes "f_ge0 exact stdev"
  shows "\<exists>st' h' a' b' c'.
           loop_debug (SmoothGrad_step exact bilinear randn example_model example_hooks unit_combiner
                         in_tensor stdev) is st h (a, b, c) = Inr (st', h', a', b', c')"
  by (induction "is" arbitrary: st h a b c) (simp_all add: step_example [OF assms])

lemma loop_mean_example:
  assumes "f_ge0 exact stdev"
      and "oc < length st" "os < length st" "oc \<noteq> os"
      and "shape (st ! oc) = [1, 1, 3]" "shape (st ! os) = [1, 1, 1, 3]"
  shows "\<exists>st' h'.
           loop_mean exact (SmoothGrad_step exact bilinear randn example_model example_hooks unit_combiner
                        in_tensor stdev) mag oc os is st h = Inr (st', h')"
  using assms(2-)
proof (induction "is" arbitrary: st h)
  case Nil
  then show ?case by simp
next
  case (Cons i "is")
  let ?p = "perturbed exact randn stdev (st ! in_tensor) i"
  let ?st1 = "st @ [?p, example_csmap, example_smaps]"
  let ?b1 = "if mag then t_zip (f_mul exact) example_csmap example_csmap else example_csmap"
  let ?b2 = "if mag then t_zip (f_mul exact) example_smaps example_smaps else example_smaps"
  let ?st2 = "?st1[oc := t_zip (f_add exact) (st ! oc) ?b1]"
  let ?st3 = "?st2[os := t_zip (f_add exact) (st ! os) ?b2]"
  have c: "?st1 ! (length st + 1) = example_csmap" "?st1 ! (length st + 2) = example_smaps"
          "?st1 ! oc = st ! oc" "?st1 ! os = st ! os"
    using Cons.prems by (simp_all add: nth_append)
  have sb: "shape ?b1 = [1, 1, 3]" "shape ?b2 = [1, 1, 1, 3]"
    by (simp_all add: t_zip_def example_csmap_def example_smaps_def)
  have a1: "iadd exact ?st1 oc (if mag then t_zip (f_mul exact) (?st1 ! (length st + 1)) (?st1 ! (length st + 1))
                          else ?st1 ! (length st + 1)) = Inr ?st2"
    unfolding c using sb(1) Cons.prems by (simp add: iadd_def c)
  have c2: "?st2 ! (length st + 2) = example_smaps" "?st2 ! os = st ! os"
    using Cons.prems c by (simp_all add: nth_list_update nth_append)
  have a2: "iadd exact ?st2 os (if mag then t_zip (f_mul exact) (?st2 ! (length st + 2)) (?st2 ! (length st + 2))
                          else ?st2 ! (length st + 2)) = Inr ?st3"
    unfolding c2 using sb(2) Cons.prems by (simp add: iadd_def c2)
  have "\<exists>st' h'. loop_mean exact (SmoothGrad_step exact bilinear randn example_model example_hooks unit_combiner
                        in_tensor stdev) mag oc os is ?st3 (h @ [?p]) = Inr (st', h')"
    using Cons.prems by (intro Cons.IH) (simp_all add: nth_list_update nth_append t_zip_def)
  moreover have "SmoothGrad_step exact bilinear randn example_model example_hooks unit_combiner
                   in_tensor stdev i st h
                 = Inr (?st1, h @ [?p], length st, length st + 1, length st + 2)"
    by (rule step_example [OF assms(1)])
  ultimately show ?case
    by (simp only: loop_mean.simps sum.case prod.case a1 a2)
qed

lemma call_example:
  assumes "0 \<le> stdev_spread self" and mm0: "\<not> maps_magnitude self"
  shows "\<exists>out_csmap out_smaps ret_image st' h'.
           SmoothGrad_call exact bilinear randn example_model example_hooks self [example_input] 0 h
             WNone debug = Inr (out_csmap, out_smaps, ret_image, st', h')"
proof -
  have mm: "t_max exact example_input = Inr (Fin 2)" "t_min exact example_input = Inr (Fin 0)"
    by (simp_all add: exact_simps t_max_def t_min_def example_input_def)
  have sh: "shape example_input = [1, 1, 1, 3]" by (simp add: example_input_def)
  have ok: "f_ge0 exact (f_mul exact (f_lit exact (stdev_spread self)) (f_sub exact (Fin 2) (Fin 0)))"
    using assms(1) by (simp add: exact_simps fsub_def)
  show ?thesis
  proof (cases debug)
    case True
    from loop_debug_example [OF ok] obtain st' h' a' b' c' where
      "loop_debug (SmoothGrad_step exact bilinear randn example_model example_hooks unit_combiner 0
          (f_mul exact (f_lit exact (stdev_spread self)) (f_sub exact (Fin 2) (Fin 0)))) [0..<nat (iters self)]
          [example_input] h ([], [], []) = Inr (st', h', a', b', c')"
      by blast
    then show ?thesis using True mm0
      by (simp add: SmoothGrad_call_def sh mm example_hooks_def init_unit Let_def)
  next
    case False
    let ?st0 = "[example_input, zeros exact [1, 1, 3], zeros exact [1, 1, 1, 3]]"
    have "\<exists>st' h'. loop_mean exact (SmoothGrad_step exact bilinear randn example_model example_hooks
            unit_combiner 0 (f_mul exact (f_lit exact (stdev_spread self)) (f_sub exact (Fin 2) (Fin 0))))
            (sg_magnitude self) 1 2 [0..<nat (iters self)] ?st0 h = Inr (st', h')"
      by (intro loop_mean_example [OF ok]) (simp_all add: zeros_def)
    then show ?thesis using False mm0
      by (auto simp: SmoothGrad_call_def sh mm example_hooks_def init_unit Let_def alloc_def
            numeral_2_eq_2)
  qed
qed



section \<open>The noise aggregator\<close>

lemma example_facts:
  "shape example_input = [1, 1, 1, 3]" "wf_tensor example_input"
  "t_max exact example_input = Inr (Fin 2)" "t_min exact example_input = Inr (Fin 0)"
  by (simp_all add: example_input_def wf_tensor_def t_max_def t_min_def exact_simps)

lemma example_init:
  "CombineSaliencyMaps_init exact
     [int (shape ([example_input] ! 0) ! 2), int (shape ([example_input] ! 0) ! 3)]
     (int (length (example_hooks h))) WNone ''bilinear'' False = Inr unit_combiner"
  using init_unit by (simp add: example_facts example_hooks_def)

lemma call_noise:
  assumes call: "SmoothGrad_call A interp randn model hook_data self st in_tensor h weights' debug
                   = Inr (out_csmap, out_smaps, ret_image, st', h')"
      and lt: "in_tensor < length st"
  shows "\<exists>getCsmap stdev ms.
             noise_scale A self (st ! in_tensor) = Inr stdev
           \<and> iteration_maps (perturbed A randn stdev (st ! in_tensor))
                (SmoothGrad_score A interp model hook_data getCsmap) [0..<nat (iters self)] h
              = Inr (ms, h')
           \<and> (debug \<longrightarrow> map ((!) st') ret_image =
                 map (perturbed A randn stdev (st ! in_tensor)) [0..<nat (iters self)])"
proof (cases debug)
  case True
  with call have c: "SmoothGrad_call A interp randn model hook_data self st in_tensor h weights' True
                 = Inr (out_csmap, out_smaps, ret_image, st', h')" by simp
  from call_debug [OF c lt] obtain getCsmap mx mn ms where
    "t_max A (st ! in_tensor) = Inr mx" "t_min A (st ! in_tensor) = Inr mn"
    "iteration_maps
       (perturbed A randn (f_mul A (f_lit A (stdev_spread self)) (f_sub A mx mn)) (st ! in_tensor))
       (SmoothGrad_score A interp model hook_data getCsmap) [0..<nat (iters self)] h = Inr (ms, h')"
    "map ((!) st') ret_image =
       map (perturbed A randn (f_mul A (f_lit A (stdev_spread self)) (f_sub A mx mn)) (st ! in_tensor))
         [0..<nat (iters self)]"
    by blast
  then show ?thesis by (auto simp: noise_scale_def)
next
  case False
  with call have c: "SmoothGrad_call A interp randn model hook_data self st in_tensor h weights' False
                 = Inr (out_csmap, out_smaps, ret_image, st', h')" by simp
  from call_mean [OF c lt] obtain getCsmap mx mn ms where
    "t_max A (st ! in_tensor) = Inr mx" "t_min A (st ! in_tensor) = Inr mn"
    "iteration_maps
       (perturbed A randn (f_mul A (f_lit A (stdev_spread self)) (f_sub A mx mn)) (st ! in_tensor))
       (SmoothGrad_score A interp model hook_data getCsmap) [0..<nat (iters self)] h = Inr (ms, h')"
    by blast
  then show ?thesis using False by (auto simp: noise_scale_def)
qed

text \<open>
  C10. Whatever \<^verbatim>\<open>SmoothGrad.__call__\<close> does on a store \<open>st\<close>, in every arithmetic, with
  every model, hooks, resize function and noise, in debug mode or not, and whether it
  returns or raises: the store it leaves behind begins with \<open>st\<close>, so every tensor that
  existed before the call is unchanged, the caller's input tensor among them. When the
  call returns, every tensor it returns (the maps, and in debug mode the perturbed
  inputs) is at an address that did not exist before the call: the perturbed inputs are
  new tensors, none is the caller's.
\<close>

theorem SmoothGrad_input_unchanged:
  "take (length st)
     (final_store (SmoothGrad_call A interp randn model hook_data self st in_tensor h weights' debug))
     = st
   \<and> (in_tensor < length st \<longrightarrow>
        final_store (SmoothGrad_call A interp randn model hook_data self st in_tensor h weights' debug)
          ! in_tensor = st ! in_tensor)
   \<and> (\<forall>out_csmap out_smaps ret_image st' h'.
         in_tensor < length st \<longrightarrow>
         SmoothGrad_call A interp randn model hook_data self st in_tensor h weights' debug
           = Inr (out_csmap, out_smaps, ret_image, st', h') \<longrightarrow>
         (\<forall>r \<in> set (refs_of out_csmap @ refs_of out_smaps @ ret_image).
            length st \<le> r \<and> r < length st'))"
proof -
  let ?call = "SmoothGrad_call A interp randn model hook_data self st in_tensor h weights' debug"
  have pre: "take (length st) (final_store ?call) = st" by (rule call_frame)
  have "final_store ?call ! in_tensor = st ! in_tensor" if "in_tensor < length st"
  proof -
    have "take (length st) (final_store ?call) ! in_tensor = final_store ?call ! in_tensor"
      using that by simp
    then show ?thesis using pre by simp
  qed
  moreover have "\<forall>r \<in> set (refs_of out_csmap @ refs_of out_smaps @ ret_image).
                   length st \<le> r \<and> r < length st'"
    if lt: "in_tensor < length st"
      and call: "?call = Inr (out_csmap, out_smaps, ret_image, st', h')"
    for out_csmap out_smaps ret_image st' h'
  proof (cases debug)
    case True
    with call have c: "SmoothGrad_call A interp randn model hook_data self st in_tensor h weights' True
                   = Inr (out_csmap, out_smaps, ret_image, st', h')" by simp
    from call_debug [OF c lt] show ?thesis by auto
  next
    case False
    with call have c: "SmoothGrad_call A interp randn model hook_data self st in_tensor h weights' False
                   = Inr (out_csmap, out_smaps, ret_image, st', h')" by simp
    from call_mean [OF c lt] show ?thesis by auto
  qed
  ultimately show ?thesis using pre by blast
qed

text \<open>
  On the concrete run, in debug mode with two iterations: the call returns, the input
  tensor at address \<open>0\<close> is as it was, and address \<open>0\<close> is none of the returned ones.
\<close>

theorem SmoothGrad_input_unchanged_witness:
  "\<exists>out_csmap out_smaps ret_image st' h'.
     SmoothGrad_call exact bilinear example_randn example_model example_hooks
       (SmoothGrad_init 2 True (1 / 2) False) [example_input] 0 [] WNone True
       = Inr (out_csmap, out_smaps, ret_image, st', h')
     \<and> st' ! 0 = example_input
     \<and> 0 \<notin> set (refs_of out_csmap @ refs_of out_smaps @ ret_image)"
proof -
  let ?self = "SmoothGrad_init 2 True (1 / 2) False"
  have "0 \<le> stdev_spread ?self" "\<not> maps_magnitude ?self" by (simp_all add: SmoothGrad_init_def)
  from call_example [OF this, of example_randn "[]" True]
  obtain out_csmap out_smaps ret_image st' h' where
    call: "SmoothGrad_call exact bilinear example_randn example_model example_hooks ?self
             [example_input] 0 [] WNone True = Inr (out_csmap, out_smaps, ret_image, st', h')"
    by blast
  from SmoothGrad_input_unchanged [of "[example_input]" exact bilinear example_randn example_model
         example_hooks ?self 0 "[]" WNone True]
  have "st' ! 0 = example_input"
    and "\<forall>r \<in> set (refs_of out_csmap @ refs_of out_smaps @ ret_image). 1 \<le> r \<and> r < length st'"
    using call by auto
  then show ?thesis using call by fastforce
qed

text \<open>
  C8. When a call of \<^verbatim>\<open>SmoothGrad.__call__\<close> returns, in every arithmetic: there is one
  noise scale \<open>stdev\<close>, the product of \<^verbatim>\<open>stdev_spread\<close> and the difference of the maximum
  and the minimum of the caller's input tensor; the model has been run, in this order,
  on exactly the tensors \<open>in_tensor + noise\<^sub>i\<close> for \<open>i = 0, ..., iters - 1\<close>, where
  \<open>noise\<^sub>i\<close> is the sample of iteration \<open>i\<close> with mean zero and standard deviation
  \<open>stdev\<close> and \<open>in_tensor\<close> is the caller's tensor as it was before the call; in debug
  mode these tensors are the returned images; and the caller's tensor is still what it
  was. No iteration perturbs the perturbed input of another.
\<close>

theorem SmoothGrad_noise_scale_fixed:
  assumes call: "SmoothGrad_call A interp randn model hook_data self st in_tensor h weights' debug
                   = Inr (out_csmap, out_smaps, ret_image, st', h')"
      and lt: "in_tensor < length st"
  shows "\<exists>mx mn stdev.
             t_max A (st ! in_tensor) = Inr mx \<and> t_min A (st ! in_tensor) = Inr mn
           \<and> stdev = f_mul A (f_lit A (stdev_spread self)) (f_sub A mx mn)
           \<and> h' = foldl (\<lambda>h i. model h
                           (t_zip (f_add A) (st ! in_tensor)
                              (normal_sample A (randn i) stdev (shape (st ! in_tensor)))))
                     h [0..<nat (iters self)]
           \<and> (debug \<longrightarrow>
                map ((!) st') ret_image =
                  map (\<lambda>i. t_zip (f_add A) (st ! in_tensor)
                              (normal_sample A (randn i) stdev (shape (st ! in_tensor))))
                    [0..<nat (iters self)])
           \<and> st' ! in_tensor = st ! in_tensor"
proof -
  from call_noise [OF call lt] obtain getCsmap stdev ms where
    ns: "noise_scale A self (st ! in_tensor) = Inr stdev"
    and it: "iteration_maps (perturbed A randn stdev (st ! in_tensor))
                (SmoothGrad_score A interp model hook_data getCsmap) [0..<nat (iters self)] h
              = Inr (ms, h')"
    and im: "debug \<longrightarrow> map ((!) st') ret_image =
                 map (perturbed A randn stdev (st ! in_tensor)) [0..<nat (iters self)]"
    by blast
  from ns obtain mx mn where m: "t_max A (st ! in_tensor) = Inr mx" "t_min A (st ! in_tensor) = Inr mn"
      "stdev = f_mul A (f_lit A (stdev_spread self)) (f_sub A mx mn)"
    by (auto simp: noise_scale_def split: sum.splits)
  have hk: "h' = foldl (\<lambda>h i. model h (perturbed A randn stdev (st ! in_tensor) i)) h
                   [0..<nat (iters self)]"
    using iteration_maps_hooks [OF it] by simp
  have "take (length st) (final_store (SmoothGrad_call A interp randn model hook_data self st
           in_tensor h weights' debug)) = st" by (rule call_frame)
  then have "take (length st) st' = st" using call by simp
  then have "take (length st) st' ! in_tensor = st ! in_tensor" by simp
  then have fr: "st' ! in_tensor = st ! in_tensor" using lt by simp
  show ?thesis using m hk im fr unfolding perturbed_def by blast
qed

text \<open>
  On the concrete run, in debug mode with two iterations and \<^verbatim>\<open>stdev_spread = 0.5\<close>: the
  input ranges from \<open>0\<close> to \<open>2\<close>, the noise scale is \<open>1\<close>, and the two tensors the model
  was run on are the input plus the first and the input plus the second sample of that
  scale, which are also the returned images.
\<close>

theorem SmoothGrad_noise_scale_fixed_witness:
  "\<exists>out_csmap out_smaps ret_image st' h'.
     SmoothGrad_call exact bilinear example_randn example_model example_hooks
       (SmoothGrad_init 2 True (1 / 2) False) [example_input] 0 [] WNone True
       = Inr (out_csmap, out_smaps, ret_image, st', h')
     \<and> h' = [t_zip fadd example_input (normal_sample exact (example_randn 0) (Fin 1) [1, 1, 1, 3]),
             t_zip fadd example_input (normal_sample exact (example_randn 1) (Fin 1) [1, 1, 1, 3])]
     \<and> map ((!) st') ret_image = h'"
proof -
  let ?self = "SmoothGrad_init 2 True (1 / 2) False"
  have "0 \<le> stdev_spread ?self" "\<not> maps_magnitude ?self" by (simp_all add: SmoothGrad_init_def)
  from call_example [OF this, of example_randn "[]" True]
  obtain out_csmap out_smaps ret_image st' h' where
    call: "SmoothGrad_call exact bilinear example_randn example_model example_hooks ?self
             [example_input] 0 [] WNone True = Inr (out_csmap, out_smaps, ret_image, st', h')"
    by blast
  have up: "[0..<nat (iters ?self)] = [0, 1]" by (simp add: SmoothGrad_init_def upt_small)
  from SmoothGrad_noise_scale_fixed [OF call]
  have "h' = [t_zip fadd example_input (normal_sample exact (example_randn 0) (Fin 1) [1, 1, 1, 3]),
             t_zip fadd example_input (normal_sample exact (example_randn 1) (Fin 1) [1, 1, 1, 3])]
        \<and> map ((!) st') ret_image = h'"
    unfolding up
    by (auto simp: example_facts example_model_def SmoothGrad_init_def fsub_def exact_simps)
  then have "h' = [t_zip fadd example_input (normal_sample exact (example_randn 0) (Fin 1) [1, 1, 1, 3]),
             t_zip fadd example_input (normal_sample exact (example_randn 1) (Fin 1) [1, 1, 1, 3])]"
    and "map ((!) st') ret_image = h'" by simp_all
  with call show ?thesis by (intro exI conjI)
qed


lemma fadd_zero: "fadd (Fin 0) v = v" "fadd v (Fin 0) = v"
  by (cases v; simp)+

lemma fdiv_one: "fdiv v (Fin 1) = v"
  by (cases v) simp_all

lemma neutral_on_exact: "neutral_on exact vs"
  by (simp add: neutral_on_def exact_simps fadd_zero fdiv_one)

lemma zero_noise_on_example: "zero_noise_on exact (example_randn i) vs"
  by (simp add: zero_noise_on_def exact_simps example_randn_def fadd_zero)

lemma example_noise_scale_zero:
  "noise_scale exact (SmoothGrad_init n mag 0 False) example_input = Inr (Fin 0)"
  by (simp add: noise_scale_def example_facts SmoothGrad_init_def exact_simps fsub_def)

text \<open>
  C2. When a call of \<^verbatim>\<open>SmoothGrad.__call__\<close> without \<^verbatim>\<open>debug\<close> returns, in every
  arithmetic: the iterations \<open>0, ..., iters - 1\<close> have each produced a pair
  \<^verbatim>\<open>csmap, smaps\<close> from the input perturbed with the one noise scale; the returned combined
  map is the sum, taken from the zero tensor of shape \<open>[1, H, W]\<close> in the order of the
  iterations, of the elementwise squares of the combined maps if \<^verbatim>\<open>magnitude\<close> is set and
  of the combined maps themselves if not, divided elementwise by \<^verbatim>\<open>iters\<close>; the returned
  stacked maps are the same with the stacked maps and the shape \<open>[1, L, H, W]\<close>. Nothing
  else is applied to the sums, in particular no square root; the returned image list
  is empty.
\<close>

theorem SmoothGrad_mean_aggregation:
  assumes call: "SmoothGrad_call A interp randn model hook_data self st in_tensor h weights' False
                   = Inr (out_csmap, out_smaps, ret_image, st', h')"
      and lt: "in_tensor < length st"
  shows "\<exists>getCsmap stdev ms oc os.
             CombineSaliencyMaps_init A
               [int (shape (st ! in_tensor) ! 2), int (shape (st ! in_tensor) ! 3)]
               (int (length (hook_data h))) weights' ''bilinear'' (maps_magnitude self)
             = Inr getCsmap
           \<and> noise_scale A self (st ! in_tensor) = Inr stdev
           \<and> iteration_maps (perturbed A randn stdev (st ! in_tensor))
                (SmoothGrad_score A interp model hook_data getCsmap) [0..<nat (iters self)] h
              = Inr (ms, h')
           \<and> length ms = nat (iters self)
           \<and> out_csmap = OTensor oc \<and> out_smaps = OTensor os \<and> ret_image = []
           \<and> st' ! oc =
               t_div_int A
                 (t_sum A [1, shape (st ! in_tensor) ! 2, shape (st ! in_tensor) ! 3]
                    (map (\<lambda>(csmap, smaps). if sg_magnitude self then t_square A csmap else csmap) ms))
                 (iters self)
           \<and> st' ! os =
               t_div_int A
                 (t_sum A [1, length (hook_data h), shape (st ! in_tensor) ! 2,
                         shape (st ! in_tensor) ! 3]
                    (map (\<lambda>(csmap, smaps). if sg_magnitude self then t_square A smaps else smaps) ms))
                 (iters self)"
proof -
  from call_mean [OF call lt] obtain getCsmap mx mn ms where
    R: "CombineSaliencyMaps_init A
               [int (shape (st ! in_tensor) ! 2), int (shape (st ! in_tensor) ! 3)]
               (int (length (hook_data h))) weights' ''bilinear'' (maps_magnitude self)
             = Inr getCsmap"
       "t_max A (st ! in_tensor) = Inr mx" "t_min A (st ! in_tensor) = Inr mn"
       "iteration_maps
               (perturbed A randn (f_mul A (f_lit A (stdev_spread self)) (f_sub A mx mn)) (st ! in_tensor))
               (SmoothGrad_score A interp model hook_data getCsmap) [0..<nat (iters self)] h
             = Inr (ms, h')"
       "out_csmap = OTensor (length st)" "out_smaps = OTensor (length st + 1)" "ret_image = []"
       "st' ! length st =
             t_div_int A
               (foldl (t_zip (f_add A))
                  (zeros A [1, shape (st ! in_tensor) ! 2, shape (st ! in_tensor) ! 3])
                  (map (\<lambda>(cs, sm). if sg_magnitude self then t_square A cs else cs) ms))
               (iters self)"
       "st' ! (length st + 1) =
             t_div_int A
               (foldl (t_zip (f_add A))
                  (zeros A [1, length (hook_data h), shape (st ! in_tensor) ! 2,
                          shape (st ! in_tensor) ! 3])
                  (map (\<lambda>(cs, sm). if sg_magnitude self then t_square A sm else sm) ms))
               (iters self)"
    by blast
  have ns: "noise_scale A self (st ! in_tensor)
              = Inr (f_mul A (f_lit A (stdev_spread self)) (f_sub A mx mn))"
    using R(2,3) by (simp add: noise_scale_def)
  have len: "length ms = nat (iters self)" using iteration_maps_hooks [OF R(4)] by simp
  show ?thesis using R(1,4-9) ns len unfolding t_sum_def by blast
qed

text \<open>
  On the concrete run with two iterations and \<^verbatim>\<open>magnitude\<close> set: each iteration yields the
  maps \<open>example_csmap\<close> and \<open>example_smaps\<close>, and the call returns the sums of their two
  squares divided by \<open>2\<close>.
\<close>

theorem SmoothGrad_mean_aggregation_witness:
  "\<exists>oc os st' h'.
     SmoothGrad_call exact bilinear example_randn example_model example_hooks
       (SmoothGrad_init 2 True (1 / 2) False) [example_input] 0 [] WNone False
       = Inr (OTensor oc, OTensor os, [], st', h')
     \<and> st' ! oc = t_div_int exact
          (t_sum exact [1, 1, 3] [t_square exact example_csmap, t_square exact example_csmap]) 2
     \<and> st' ! os = t_div_int exact
          (t_sum exact [1, 1, 1, 3] [t_square exact example_smaps, t_square exact example_smaps]) 2"
proof -
  let ?self = "SmoothGrad_init 2 True (1 / 2) False"
  have "0 \<le> stdev_spread ?self" "\<not> maps_magnitude ?self" by (simp_all add: SmoothGrad_init_def)
  from call_example [OF this, of example_randn "[]" False]
  obtain out_csmap out_smaps ret_image st' h' where
    call: "SmoothGrad_call exact bilinear example_randn example_model example_hooks ?self
             [example_input] 0 [] WNone False = Inr (out_csmap, out_smaps, ret_image, st', h')"
    by blast
  have init: "CombineSaliencyMaps_init exact
                [int (shape ([example_input] ! 0) ! 2), int (shape ([example_input] ! 0) ! 3)]
                (int (length (example_hooks [])))
                WNone ''bilinear'' (maps_magnitude ?self) = Inr unit_combiner"
    using example_init [of "[]"] by (simp add: SmoothGrad_init_def)
  from SmoothGrad_mean_aggregation [OF call] obtain getCsmap stdev ms oc os where
    R: "CombineSaliencyMaps_init exact
          [int (shape ([example_input] ! 0) ! 2), int (shape ([example_input] ! 0) ! 3)]
          (int (length (example_hooks []))) WNone ''bilinear'' (maps_magnitude ?self) = Inr getCsmap"
       "iteration_maps (perturbed exact example_randn stdev ([example_input] ! 0))
          (SmoothGrad_score exact bilinear example_model example_hooks getCsmap)
          [0..<nat (iters ?self)] [] = Inr (ms, h')"
       "out_csmap = OTensor oc" "out_smaps = OTensor os" "ret_image = []"
       "st' ! oc = t_div_int exact
          (t_sum exact [1, shape ([example_input] ! 0) ! 2, shape ([example_input] ! 0) ! 3]
             (map (\<lambda>(csmap, smaps). if sg_magnitude ?self then t_square exact csmap else csmap) ms))
          (iters ?self)"
       "st' ! os = t_div_int exact
          (t_sum exact [1, length (example_hooks []), shape ([example_input] ! 0) ! 2,
                        shape ([example_input] ! 0) ! 3]
             (map (\<lambda>(csmap, smaps). if sg_magnitude ?self then t_square exact smaps else smaps) ms))
          (iters ?self)"
    by auto
  have g: "getCsmap = unit_combiner" using R(1) init by simp
  have ms: "ms = [(example_csmap, example_smaps), (example_csmap, example_smaps)]"
    using R(2) unfolding g iteration_maps_example
    by (simp add: SmoothGrad_init_def upt_small)
  have "st' ! oc = t_div_int exact
          (t_sum exact [1, 1, 3] [t_square exact example_csmap, t_square exact example_csmap]) 2"
    using R(6) unfolding ms by (simp add: SmoothGrad_init_def example_facts)
  moreover have "st' ! os = t_div_int exact
          (t_sum exact [1, 1, 1, 3] [t_square exact example_smaps, t_square exact example_smaps]) 2"
    using R(7) unfolding ms by (simp add: SmoothGrad_init_def example_facts example_hooks_def)
  ultimately show ?thesis using call R(3-5) by (intro exI conjI) simp_all
qed

text \<open>
  C5. Let a call of \<^verbatim>\<open>SmoothGrad.__call__\<close> without \<^verbatim>\<open>debug\<close> return, on a well-formed input
  tensor, with \<^verbatim>\<open>iters = 1\<close>, \<^verbatim>\<open>magnitude = False\<close> and a noise scale of zero, and let the
  zero noise leave the elements of the input as they are. Then the static single-pass
  pipeline on the unperturbed input, with the map combiner the call constructed, returns
  a combined map and stacked maps, and the call returns two tensors; the first is that
  combined map and the second those stacked maps, each provided adding its values to zero
  and dividing them by one returns them.
\<close>

theorem SmoothGrad_single_iteration:
  assumes call: "SmoothGrad_call A interp randn model hook_data self st in_tensor h weights' False
                   = Inr (out_csmap, out_smaps, ret_image, st', h')"
      and lt: "in_tensor < length st"
      and wf: "wf_tensor (st ! in_tensor)"
      and one: "iters self = 1"
      and lin: "\<not> sg_magnitude self"
      and zero: "noise_scale A self (st ! in_tensor) = Inr (f_lit A 0)"
      and still: "zero_noise_on A (randn 0) (elems (st ! in_tensor))"
  shows "\<exists>getCsmap csmap smaps oc os.
             CombineSaliencyMaps_init A
               [int (shape (st ! in_tensor) ! 2), int (shape (st ! in_tensor) ! 3)]
               (int (length (hook_data h))) weights' ''bilinear'' (maps_magnitude self)
             = Inr getCsmap
           \<and> single_pass A interp model hook_data getCsmap (st ! in_tensor) h = Inr (csmap, smaps)
           \<and> out_csmap = OTensor oc \<and> out_smaps = OTensor os
           \<and> (neutral_on A (elems csmap) \<longrightarrow> st' ! oc = csmap)
           \<and> (neutral_on A (elems smaps) \<longrightarrow> st' ! os = smaps)"
proof -
  let ?x = "st ! in_tensor"
  let ?sh1 = "[1, shape ?x ! 2, shape ?x ! 3]"
  let ?sh2 = "[1, length (hook_data h), shape ?x ! 2, shape ?x ! 3]"
  from call_mean [OF call lt] obtain getCsmap mx mn ms where
    R: "CombineSaliencyMaps_init A
               [int (shape ?x ! 2), int (shape ?x ! 3)]
               (int (length (hook_data h))) weights' ''bilinear'' (maps_magnitude self)
             = Inr getCsmap"
       "t_max A ?x = Inr mx" "t_min A ?x = Inr mn"
       "iteration_maps
               (perturbed A randn (f_mul A (f_lit A (stdev_spread self)) (f_sub A mx mn)) ?x)
               (SmoothGrad_score A interp model hook_data getCsmap) [0..<nat (iters self)] h
             = Inr (ms, h')"
       "out_csmap = OTensor (length st)" "out_smaps = OTensor (length st + 1)"
       "st' ! length st =
             t_div_int A (foldl (t_zip (f_add A)) (zeros A ?sh1)
                  (map (\<lambda>(cs, sm). if sg_magnitude self then t_square A cs else cs) ms))
               (iters self)"
       "st' ! (length st + 1) =
             t_div_int A (foldl (t_zip (f_add A)) (zeros A ?sh2)
                  (map (\<lambda>(cs, sm). if sg_magnitude self then t_square A sm else sm) ms))
               (iters self)"
       "\<forall>(cs, sm) \<in> set ms. shape cs = ?sh1 \<and> shape sm = ?sh2"
    by blast
  have sd: "f_mul A (f_lit A (stdev_spread self)) (f_sub A mx mn) = f_lit A 0"
    using zero R(2,3) by (simp add: noise_scale_def)
  have up: "[0..<nat (iters self)] = [0]" using one by simp
  from R(4) [unfolded sd up] obtain cs sm where
    sc: "SmoothGrad_score A interp model hook_data getCsmap (perturbed A randn (f_lit A 0) ?x 0) h
           = Inr (h', cs, sm)" and ms: "ms = [(cs, sm)]"
    by (auto split: sum.splits prod.splits)
  have "perturbed A randn (f_lit A 0) ?x 0 = ?x"
    using still by (intro perturbed_zero [OF wf]) (simp add: zero_noise_on_def)
  then have sc': "SmoothGrad_score A interp model hook_data getCsmap ?x h = Inr (h', cs, sm)"
    using sc by simp
  from score_single_pass [OF sc'] have
    sp: "single_pass A interp model hook_data getCsmap ?x h = Inr (cs, sm)"
    and b: "length (elems cs) \<le> prod_list (shape cs)" "length (elems sm) \<le> prod_list (shape sm)"
    by simp_all
  have shs: "shape cs = ?sh1" "shape sm = ?sh2" using R(9) ms by simp_all
  have "st' ! length st = cs" if n: "neutral_on A (elems cs)"
  proof -
    have "t_zip (f_add A) (zeros A ?sh1) cs = cs"
      using n b(1) shs(1) by (intro t_zip_zeros) (simp_all add: neutral_on_def)
    moreover have "t_div_int A cs 1 = cs"
      using n by (intro t_div_int_one) (simp add: neutral_on_def)
    ultimately show ?thesis using R(7) ms lin one by simp
  qed
  moreover have "st' ! (length st + 1) = sm" if n: "neutral_on A (elems sm)"
  proof -
    have "t_zip (f_add A) (zeros A ?sh2) sm = sm"
      using n b(2) shs(2) by (intro t_zip_zeros) (simp_all add: neutral_on_def)
    moreover have "t_div_int A sm 1 = sm"
      using n by (intro t_div_int_one) (simp add: neutral_on_def)
    ultimately show ?thesis using R(8) ms lin one by simp
  qed
  ultimately show ?thesis using R(1,5,6) sp by blast
qed

text \<open>
  On the concrete run with \<^verbatim>\<open>iters = 1\<close>, \<^verbatim>\<open>magnitude = False\<close> and \<^verbatim>\<open>stdev_spread = 0\<close>:
  the call returns the two maps of the single pass.
\<close>

theorem SmoothGrad_single_iteration_witness:
  "\<exists>oc os ret_image st' h'.
     SmoothGrad_call exact bilinear example_randn example_model example_hooks
       (SmoothGrad_init 1 False 0 False) [example_input] 0 [] WNone False
       = Inr (OTensor oc, OTensor os, ret_image, st', h')
     \<and> single_pass exact bilinear example_model example_hooks unit_combiner example_input []
         = Inr (example_csmap, example_smaps)
     \<and> st' ! oc = example_csmap \<and> st' ! os = example_smaps"
proof -
  let ?self = "SmoothGrad_init 1 False 0 False"
  have "0 \<le> stdev_spread ?self" "\<not> maps_magnitude ?self" by (simp_all add: SmoothGrad_init_def)
  from call_example [OF this, of example_randn "[]" False]
  obtain out_csmap out_smaps ret_image st' h' where
    call: "SmoothGrad_call exact bilinear example_randn example_model example_hooks ?self
             [example_input] 0 [] WNone False = Inr (out_csmap, out_smaps, ret_image, st', h')"
    by blast
  have init: "CombineSaliencyMaps_init exact
                [int (shape ([example_input] ! 0) ! 2), int (shape ([example_input] ! 0) ! 3)]
                (int (length (example_hooks [])))
                WNone ''bilinear'' (maps_magnitude ?self) = Inr unit_combiner"
    using example_init [of "[]"] by (simp add: SmoothGrad_init_def)
  have pre: "0 < length [example_input]" "wf_tensor ([example_input] ! 0)" "iters ?self = 1"
    "\<not> sg_magnitude ?self"
    "noise_scale exact ?self ([example_input] ! 0) = Inr (f_lit exact 0)"
    "zero_noise_on exact (example_randn 0) (elems ([example_input] ! 0))"
    by (simp_all add: example_facts SmoothGrad_init_def example_noise_scale_zero [unfolded SmoothGrad_init_def]
          zero_noise_on_example exact_simps)
  from SmoothGrad_single_iteration [OF call pre] obtain getCsmap csmap smaps oc os where
    R: "CombineSaliencyMaps_init exact
          [int (shape ([example_input] ! 0) ! 2), int (shape ([example_input] ! 0) ! 3)]
          (int (length (example_hooks []))) WNone ''bilinear'' (maps_magnitude ?self) = Inr getCsmap"
       "single_pass exact bilinear example_model example_hooks getCsmap ([example_input] ! 0) []
          = Inr (csmap, smaps)"
       "out_csmap = OTensor oc" "out_smaps = OTensor os"
       "neutral_on exact (elems csmap) \<longrightarrow> st' ! oc = csmap"
       "neutral_on exact (elems smaps) \<longrightarrow> st' ! os = smaps"
    by blast
  have g: "getCsmap = unit_combiner" using R(1) init by simp
  have m: "csmap = example_csmap" "smaps = example_smaps"
    using R(2) unfolding g single_pass_example by simp_all
  have "st' ! oc = example_csmap" "st' ! os = example_smaps"
    using R(5,6) neutral_on_exact unfolding m by simp_all
  then show ?thesis using call R(3,4) single_pass_example by (intro exI conjI) simp_all
qed

text \<open>
  With the defaults of \<^verbatim>\<open>SmoothGrad.__init__\<close> other than \<^verbatim>\<open>iters = 1\<close> and
  \<^verbatim>\<open>stdev_spread = 0\<close>, \<^verbatim>\<open>magnitude\<close> is set. On the concrete run the noise scale is then
  zero and the call returns, but its combined map is the elementwise square of the
  combined map of the single pass: at the middle pixel \<open>1/4\<close>, where the single pass has
  \<open>1/2\<close>.
\<close>

theorem SmoothGrad_single_iteration_squares:
  "returned_csmap
     (SmoothGrad_call exact bilinear example_randn example_model example_hooks
        (SmoothGrad_init 1 True 0 False) [example_input] 0 [] WNone False)
     = Some \<lparr>shape = [1, 1, 3],
             elems = [Fin (((1 + erf (- (1 / sqrt 2))) / 2) * ((1 + erf (- (1 / sqrt 2))) / 2)),
                      Fin (1 / 4),
                      Fin (((1 + erf (1 / sqrt 2)) / 2) * ((1 + erf (1 / sqrt 2)) / 2))]\<rparr>
   \<and> noise_scale exact (SmoothGrad_init 1 True 0 False) example_input = Inr (Fin 0)
   \<and> CombineSaliencyMaps_init exact [1, 3] 1 WNone ''bilinear'' False = Inr unit_combiner
   \<and> single_pass exact bilinear example_model example_hooks unit_combiner example_input []
         = Inr (example_csmap, example_smaps)
   \<and> elems example_csmap ! 1 = Fin (1 / 2)
   \<and> returned_csmap
         (SmoothGrad_call exact bilinear example_randn example_model example_hooks
            (SmoothGrad_init 1 True 0 False) [example_input] 0 [] WNone False)
       \<noteq> Some example_csmap"
proof -
  let ?self = "SmoothGrad_init 1 True 0 False"
  let ?sq = "\<lparr>shape = [1, 1, 3],
              elems = [Fin (((1 + erf (- (1 / sqrt 2))) / 2) * ((1 + erf (- (1 / sqrt 2))) / 2)),
                       Fin (1 / 4),
                       Fin (((1 + erf (1 / sqrt 2)) / 2) * ((1 + erf (1 / sqrt 2)) / 2))]\<rparr>"
  have "0 \<le> stdev_spread ?self" "\<not> maps_magnitude ?self" by (simp_all add: SmoothGrad_init_def)
  from call_example [OF this, of example_randn "[]" False]
  obtain out_csmap out_smaps ret_image st' h' where
    call: "SmoothGrad_call exact bilinear example_randn example_model example_hooks ?self
             [example_input] 0 [] WNone False = Inr (out_csmap, out_smaps, ret_image, st', h')"
    by blast
  have init: "CombineSaliencyMaps_init exact
                [int (shape ([example_input] ! 0) ! 2), int (shape ([example_input] ! 0) ! 3)]
                (int (length (example_hooks [])))
                WNone ''bilinear'' (maps_magnitude ?self) = Inr unit_combiner"
    using example_init [of "[]"] by (simp add: SmoothGrad_init_def)
  from call_mean [OF call] obtain getCsmap mx mn ms where
    R: "CombineSaliencyMaps_init exact
          [int (shape ([example_input] ! 0) ! 2), int (shape ([example_input] ! 0) ! 3)]
          (int (length (example_hooks []))) WNone ''bilinear'' (maps_magnitude ?self) = Inr getCsmap"
       "iteration_maps
          (perturbed exact example_randn
             (f_mul exact (f_lit exact (stdev_spread ?self)) (f_sub exact mx mn)) ([example_input] ! 0))
          (SmoothGrad_score exact bilinear example_model example_hooks getCsmap)
          [0..<nat (iters ?self)] [] = Inr (ms, h')"
       "out_csmap = OTensor (length [example_input])"
       "st' ! length [example_input] =
          t_div_int exact
            (foldl (t_zip (f_add exact))
               (zeros exact [1, shape ([example_input] ! 0) ! 2, shape ([example_input] ! 0) ! 3])
               (map (\<lambda>(cs, sm). if sg_magnitude ?self then t_square exact cs else cs) ms))
            (iters ?self)"
    by auto
  have g: "getCsmap = unit_combiner" using R(1) init by simp
  have ms: "ms = [(example_csmap, example_smaps)]"
    using R(2) unfolding g iteration_maps_example
    by (simp add: SmoothGrad_init_def upt_small)
  have sq: "st' ! 1 = ?sq"
    using R(4) unfolding ms
    by (simp add: SmoothGrad_init_def example_facts t_div_int_def t_square_def t_zip_def t_map_def
          zeros_def example_csmap_def exact_simps replicate_3)
  have ret: "returned_csmap
               (SmoothGrad_call exact bilinear example_randn example_model example_hooks ?self
                  [example_input] 0 [] WNone False) = Some ?sq"
    unfolding call using R(3) sq by simp
  have e1: "elems example_csmap ! 1 = Fin (1 / 2)" by (simp add: example_csmap_def)
  have ne: "?sq \<noteq> example_csmap"
  proof
    assume "?sq = example_csmap"
    then have "elems ?sq ! 1 = elems example_csmap ! 1"
      by (rule arg_cong [where f = "\<lambda>t. elems t ! 1"])
    then show False unfolding e1 by simp
  qed
  show ?thesis
    unfolding ret
    using example_noise_scale_zero [of 1 True] init_unit single_pass_example e1 ne
    by (intro conjI) simp_all
qed


section \<open>What the observers expose\<close>

lemma accepts_passes:
  "accepts (Some ''cuda:0'') first_pass" "accepts (Some ''cuda:0'') second_pass"
  "\<not> accepts (Some ''cuda:0'') third_pass" "accepts None second_pass"
  by (simp_all add: accepts_def first_pass_def second_pass_def third_pass_def)

text \<open>
  C9. After any sequence of forward passes \<open>evs\<close> of its layer, the attribute \<^verbatim>\<open>data\<close> of an
  output-side observer is \<^verbatim>\<open>None\<close> if no pass was on an accepted device (every device is
  accepted when none is configured), and otherwise the post-processed output tensor of
  the last accepted pass; the \<^verbatim>\<open>data\<close> of an input-side observer is \<^verbatim>\<open>None\<close> or the list of
  the post-processed input tensors of the last accepted pass, one per argument position.
  \<^verbatim>\<open>get(idx)\<close> returns \<^verbatim>\<open>None\<close> when \<^verbatim>\<open>data\<close> is \<^verbatim>\<open>None\<close>; for an index \<open>0 \<le> idx < len(data)\<close> it
  returns the \<open>idx\<close>-th tensor when \<^verbatim>\<open>data\<close> is a list, and the \<open>idx\<close>-th slice of the tensor
  along its first dimension when \<^verbatim>\<open>data\<close> is a tensor.
\<close>

theorem observer_data_and_get:
  "data (foldl CaptureLayerOutput_call (CaptureLayerData_init dev pp) evs) =
     (case filter (accepts dev) evs of
        [] \<Rightarrow> DNone
      | m # ms \<Rightarrow> DTensor (pp (layer_output (last (m # ms)))))
   \<and> data (foldl CaptureLayerInput_call (CaptureLayerData_init dev pp) evs) =
     (case filter (accepts dev) evs of
        [] \<Rightarrow> DNone
      | m # ms \<Rightarrow> DList (map pp (layer_inputs (last (m # ms)))))
   \<and> (data self = DNone \<longrightarrow> CaptureLayerData_get self idx = Inr DNone)
   \<and> (\<forall>ts. data self = DList ts \<longrightarrow> 0 \<le> idx \<longrightarrow> idx < int (length ts) \<longrightarrow>
         CaptureLayerData_get self idx = Inr (DTensor (ts ! nat idx)))
   \<and> (\<forall>t n rest. data self = DTensor t \<longrightarrow> shape t = n # rest \<longrightarrow> 0 \<le> idx \<longrightarrow> idx < int n \<longrightarrow>
         CaptureLayerData_get self idx = Inr (DTensor (t_select t (nat idx))))"
  using output_data [of dev pp evs] input_data [of dev pp evs] get_cases [of self]
  by blast

text \<open>
  An input-side observer configured for \<^verbatim>\<open>cuda:0\<close>, after the three passes: the third pass
  is on another device and leaves the capture of the second, whose two input tensors are
  the list \<^verbatim>\<open>data\<close>; \<^verbatim>\<open>get(1)\<close> returns the second of them.
\<close>

theorem observer_data_and_get_witness:
  "data (foldl CaptureLayerInput_call (CaptureLayerData_init (Some ''cuda:0'') id)
           [first_pass, second_pass, third_pass]) = DList [example_input, act]
   \<and> CaptureLayerData_get
         (foldl CaptureLayerInput_call (CaptureLayerData_init (Some ''cuda:0'') id)
            [first_pass, second_pass, third_pass]) 1 = Inr (DTensor act)"
proof -
  let ?self = "foldl CaptureLayerInput_call (CaptureLayerData_init (Some ''cuda:0'') id)
                 [first_pass, second_pass, third_pass]"
  note t = observer_data_and_get [of "Some ''cuda:0''" id "[first_pass, second_pass, third_pass]"
             ?self 1]
  have f: "filter (accepts (Some ''cuda:0'')) [first_pass, second_pass, third_pass]
             = [first_pass, second_pass]"
    by (simp add: accepts_passes)
  have i: "layer_inputs second_pass = [example_input, act]" by (simp add: second_pass_def)
  from t have "data ?self =
     (case filter (accepts (Some ''cuda:0'')) [first_pass, second_pass, third_pass] of
        [] \<Rightarrow> DNone
      | m # ms \<Rightarrow> DList (map id (layer_inputs (last (m # ms)))))"
    by blast
  then have d: "data ?self = DList [example_input, act]"
    unfolding f by (simp add: i)
  from t have "\<forall>ts. data ?self = DList ts \<longrightarrow> 0 \<le> (1::int) \<longrightarrow> 1 < int (length ts) \<longrightarrow>
         CaptureLayerData_get ?self 1 = Inr (DTensor (ts ! nat 1))"
    by blast
  with d have "CaptureLayerData_get ?self 1 = Inr (DTensor ([example_input, act] ! nat 1))"
    by simp
  then have "CaptureLayerData_get ?self 1 = Inr (DTensor act)" by simp
  with d show ?thesis by (intro conjI)
qed

text \<open>
  An output-side observer without a configured device, after the second pass alone: it
  has captured the output of the pass, a tensor of shape \<open>[2, 1]\<close>, and \<^verbatim>\<open>get()\<close> returns the
  first slice of it, a tensor of shape \<open>[1]\<close>, not the captured tensor.
\<close>

theorem observer_get_returns_slice:
  "data (foldl CaptureLayerOutput_call (CaptureLayerData_init None id) [second_pass])
     = DTensor batch_output
   \<and> CaptureLayerData_get
         (foldl CaptureLayerOutput_call (CaptureLayerData_init None id) [second_pass]) 0
       = Inr (DTensor \<lparr>shape = [1], elems = [Fin 1]\<rparr>)
   \<and> CaptureLayerData_get
         (foldl CaptureLayerOutput_call (CaptureLayerData_init None id) [second_pass]) 0
       \<noteq> Inr (DTensor batch_output)"
  by (simp add: CaptureLayerData_init_def CaptureLayerOutput_call_def CaptureLayerData_get_def
        second_pass_def batch_output_def py_index_def t_select_def)


section \<open>The weights of the map combiner\<close>

text \<open>
  C3. \<^verbatim>\<open>CombineSaliencyMaps.__init__\<close> never succeeds when \<^verbatim>\<open>weights\<close> is a Python number or a
  list of one number, whatever the other arguments are: it raises. With the default
  output size, three maps and the weight \<open>2.0\<close>, passed as a number or as the list
  \<^verbatim>\<open>[2.0]\<close>, it raises TypeError (at \<^verbatim>\<open>len(weights)\<close> for the number, at
  \<^verbatim>\<open>assert(weights > 0)\<close> for the list), so no weight is broadcast and no weight sum is
  formed.
\<close>

theorem CombineSaliencyMaps_init_single_weight:
  "(\<exists>e. CombineSaliencyMaps_init A output_size' L (WNumber w) mode mag = Inl e)
   \<and> (\<exists>e. CombineSaliencyMaps_init A output_size' L (WList [w]) mode mag = Inl e)
   \<and> CombineSaliencyMaps_init A [224, 224] 3 (WNumber 2) ''bilinear'' False = Inl TypeError
   \<and> CombineSaliencyMaps_init A [224, 224] 3 (WList [2]) ''bilinear'' False = Inl TypeError"
  by (simp add: CombineSaliencyMaps_init_def)

text \<open>
  C4. For an output size \<open>[H, W]\<close>, the construction of \<^verbatim>\<open>CombineSaliencyMaps\<close> with
  \<^verbatim>\<open>map_num=1\<close>, \<^verbatim>\<open>weights=[1.0]\<close> and \<^verbatim>\<open>magnitude=False\<close> raises: TypeError when \<open>H\<close> and \<open>W\<close>
  are positive, AssertionError otherwise. There is no combiner to apply to a map.
\<close>

theorem CombineSaliencyMaps_unit_weight_list:
  "CombineSaliencyMaps_init A [int H, int W] 1 (WList [1]) mode False
     = Inl (if 0 < H \<and> 0 < W then TypeError else AssertionError)"
  by (simp add: CombineSaliencyMaps_init_def)


section \<open>Normalize2D on a constant sample\<close>

lemma map_upt_const:
  assumes "\<And>i. i < N \<Longrightarrow> f i = c"
  shows "map f [0..<N] = replicate N c"
  using assms by (simp add: list_eq_iff_nth_eq)

lemma channel_zero_rows:
  assumes "i < B"
  shows "channel \<lparr>shape = [B, n], elems = replicate (B * n) z\<rparr> i = replicate n z"
proof -
  have "i * n + c < B * n" if "c < n" for c
  proof -
    have "i * n + c < i * n + n" using that by simp
    also have "\<dots> = Suc i * n" by simp
    also have "\<dots> \<le> B * n" using assms by (intro mult_le_mono1) simp
    finally show ?thesis .
  qed
  then show ?thesis by (simp add: channel_def map_upt_const)
qed

lemma reduce_zero_rows:
  "reduce_dim1 f \<lparr>shape = [B, n], elems = replicate (B * n) z\<rparr>
     = \<lparr>shape = [B], elems = replicate B (f (replicate n z))\<rparr>"
  by (simp add: reduce_dim1_def channel_zero_rows map_upt_const)

lemma rowwise_const:
  "t_rowwise f \<lparr>shape = [B, n], elems = replicate (B * n) z\<rparr>
       \<lparr>shape = sh, elems = replicate B c\<rparr>
     = \<lparr>shape = [B, n], elems = replicate (B * n) (f z c)\<rparr>"
proof -
  have "i div n < B" if "i < B * n" for i
    using that by (simp add: less_mult_imp_div_less)
  then show ?thesis by (simp add: t_rowwise_def map_upt_const)
qed

text \<open>
  C6. Let the mean and the standard deviation of a list of zeros be zero, let
  \<open>0 - 0\<close> be zero and let zero times the square root of two be zero, as in IEEE-754
  arithmetic (for a list of at least two zeros). Then on the tensor of zeros of shape
  \<open>[B, H, W]\<close>, \<^verbatim>\<open>Normalize2D.forward\<close> returns a tensor of that shape whose every element is
  \<open>0.5 * (1 + erf (0 / 0))\<close>: the standard deviation of a constant sample is zero, and the
  deviations of its values from their mean are divided by it.
\<close>

theorem Normalize2D_constant_sample:
  assumes mean: "f_mean A (replicate (H * W) (f_lit A 0)) = f_lit A 0"
      and std: "f_std A (replicate (H * W) (f_lit A 0)) = f_lit A 0"
      and sub: "f_sub A (f_lit A 0) (f_lit A 0) = f_lit A 0"
      and mul: "f_mul A (f_lit A 0) (f_sqrt A (f_lit A 2)) = f_lit A 0"
  shows "Normalize2D_forward A (DTensor (zeros A [B, H, W]))
     = Inr \<lparr>shape = [B, H, W],
            elems = replicate (B * H * W)
                      (f_mul A (f_lit A (1 / 2))
                         (f_add A (f_lit A 1) (f_erf A (f_div A (f_lit A 0) (f_lit A 0)))))\<rparr>"
proof -
  let ?n = "H * W"
  let ?x = "\<lparr>shape = [B, ?n], elems = replicate (B * ?n) (f_lit A 0)\<rparr>"
  have v: "t_view [B, ?n] (zeros A [B, H, W]) = ?x"
    by (simp add: t_view_def zeros_def)
  have m: "reduce_dim1 (f_mean A) ?x = \<lparr>shape = [B], elems = replicate B (f_lit A 0)\<rparr>"
    by (simp add: reduce_zero_rows mean)
  have s: "reduce_dim1 (f_std A) ?x = \<lparr>shape = [B], elems = replicate B (f_lit A 0)\<rparr>"
    by (simp add: reduce_zero_rows std)
  show ?thesis
    unfolding Normalize2D_forward_def
    by (simp add: Let_def v [simplified] m s rowwise_const sub t_view_def t_map_def mul zeros_def
          mult.assoc)
qed

text \<open>
  In the idealised arithmetic, on the \<open>2 \<times> 2\<close> sample of zeros: every element of the result
  is NaN.
\<close>

theorem Normalize2D_constant_sample_witness:
  "Normalize2D_forward exact (DTensor (zeros exact [1, 2, 2]))
     = Inr \<lparr>shape = [1, 2, 2], elems = [NaN, NaN, NaN, NaN]\<rparr>"
proof -
  have r: "replicate (2 * 2) (Fin 0) = [Fin 0, Fin 0, Fin 0, Fin 0]"
    by (simp add: numeral_eq_Suc)
  have "f_mean exact (replicate (2 * 2) (f_lit exact 0)) = f_lit exact 0"
       "f_std exact (replicate (2 * 2) (f_lit exact 0)) = f_lit exact 0"
       "f_sub exact (f_lit exact 0) (f_lit exact 0) = f_lit exact 0"
       "f_mul exact (f_lit exact 0) (f_sqrt exact (f_lit exact 2)) = f_lit exact 0"
    unfolding exact_simps r by (simp_all add: fmean_def fstd_def fsum_def fsub_def)
  from Normalize2D_constant_sample [OF this, of 1]
  show ?thesis by (simp add: exact_simps signed_inf_def numeral_eq_Suc)
qed


section \<open>The survival term of the truncated-normal entropy\<close>

lemma map2_map_same: "map2 f (map g xs) (map h xs) = map (\<lambda>x. f (g x) (h x)) xs"
  by (induction xs) simp_all

lemma t_map_upt:
  "t_map f \<lparr>shape = sh, elems = map g xs\<rparr> = \<lparr>shape = sh, elems = map (\<lambda>i. f (g i)) xs\<rparr>"
  by (simp add: t_map_def comp_def)

lemma t_zip_upt:
  "t_zip f \<lparr>shape = sh, elems = map g xs\<rparr> \<lparr>shape = sh', elems = map h xs\<rparr>
     = \<lparr>shape = sh, elems = map (\<lambda>i. f (g i) (h i)) xs\<rparr>"
  by (simp add: t_zip_def map2_map_same)

lemma c3_pos: "0 < c3"
  by (simp add: c3_def)

lemma c2_nonzero: "c2 \<noteq> 0"
  by (simp add: c2_def)

lemma eps_small: "0 < eps" "2 * eps \<noteq> 1" "0 < 1 / 2 - eps"
  by (simp_all add: eps_def)

lemma saturating_simps:
  "f_lit saturating = Fin" "f_add saturating = fadd" "f_sub saturating = fsub"
  "f_mul saturating = fmul" "f_div saturating = fdiv" "f_log saturating = flog"
  "f_exp saturating = fexp" "f_erf saturating = ferf_sat"
  "f_square saturating = (\<lambda>v. fmul v v)" "f_mean saturating = fmean" "f_std saturating = fstd"
  by (simp_all add: saturating_def exact_def)

text \<open>
  C1. In every arithmetic, \<^verbatim>\<open>TruncNormalEntMap.forward\<close> raises AssertionError on a tensor of
  rank at most 2, and on a tensor of rank greater than 2 it returns the tensor without
  the channel axis whose element at pixel \<open>i\<close> is
  \<open>log (c3 * s * Z) + (alpha * phi alpha) / (2 * Z)\<close>, where \<open>m\<close> and \<open>s\<close> are the mean and
  the standard deviation of the channel values of the pixel, \<open>alpha = (0 - m) / s\<close>, and
  \<open>Z = 1 - (Phi alpha + epsilon)\<close>: the \<open>\<epsilon>\<close> is added to the distribution function before
  the subtraction, so that it is subtracted from the survival term \<open>1 - Phi alpha\<close>.
\<close>

theorem TruncNormalEntMap_pixel:
  "TruncNormalEntMap_forward A (DTensor x) =
     (if 2 < length (shape x) then
        Inr \<lparr>shape = shape x ! 0 # drop 2 (shape x),
             elems =
               map (\<lambda>i. let m = f_mean A (channel x i);
                             s = f_std A (channel x i);
                             a = truncation_point A m s
                         in truncated_entropy A s a
                              (f_sub A (f_lit A 1) (f_add A (normal_cdf A a) (f_lit A eps))))
                 [0..<shape x ! 0 * prod_list (drop 2 (shape x))]\<rparr>
      else Inl AssertionError)"
  by (simp add: TruncNormalEntMap_forward_def Let_def reduce_dim1_def t_map_upt t_zip_upt
        compute_alpha_def compute_pdf_def compute_cdf_def
        truncation_point_def normal_pdf_def normal_cdf_def truncated_entropy_def)

text \<open>
  With the error function saturating, on one pixel with the channel values \<open>-10\<close>, \<open>-11\<close>
  and \<open>-12\<close>: the mean is \<open>-11\<close>, the standard deviation \<open>1\<close>, \<open>alpha = 11\<close> and
  \<open>Phi alpha = 1\<close>. The function returns NaN, the logarithm of the negative number
  \<open>c3 * 1 * (1 - (1 + \<epsilon>))\<close>; the entropy with the survival term \<open>1 - Phi alpha + \<epsilon>\<close> is a
  finite number.
\<close>

theorem TruncNormalEntMap_saturated:
  "TruncNormalEntMap_forward saturating
     (DTensor \<lparr>shape = [1, 3, 1, 1], elems = [Fin (- 10), Fin (- 11), Fin (- 12)]\<rparr>)
     = Inr \<lparr>shape = [1, 1, 1], elems = [NaN]\<rparr>
   \<and> f_mean saturating [Fin (- 10), Fin (- 11), Fin (- 12)] = Fin (- 11)
   \<and> f_std saturating [Fin (- 10), Fin (- 11), Fin (- 12)] = Fin 1
   \<and> truncation_point saturating (Fin (- 11)) (Fin 1) = Fin 11
   \<and> normal_cdf saturating (Fin 11) = Fin 1
   \<and> is_finite
        (truncated_entropy saturating (Fin 1) (Fin 11)
           (f_add saturating (f_sub saturating (Fin 1) (normal_cdf saturating (Fin 11))) (Fin eps)))"
proof -
  have sat: "4 \<le> 11 / c2" by (simp add: c2_def)
  have neg: "\<not> 0 < c3 * (- eps)" "c3 * (- eps) \<noteq> 0" "0 < c3 * eps"
    using c3_pos eps_small(1) by (simp_all add: mult_less_0_iff)
  have m: "f_mean saturating [Fin (- 10), Fin (- 11), Fin (- 12)] = Fin (- 11)"
    by (simp add: saturating_simps fmean_def fsum_def)
  have s: "f_std saturating [Fin (- 10), Fin (- 11), Fin (- 12)] = Fin 1"
    by (simp add: saturating_simps fstd_def fmean_def fsum_def fsub_def)
  have a: "truncation_point saturating (Fin (- 11)) (Fin 1) = Fin 11"
    by (simp add: truncation_point_def saturating_simps fsub_def)
  have c: "normal_cdf saturating (Fin 11) = Fin 1"
    using sat c2_nonzero by (simp add: normal_cdf_def saturating_simps)
  have f: "TruncNormalEntMap_forward saturating
             (DTensor \<lparr>shape = [1, 3, 1, 1], elems = [Fin (- 10), Fin (- 11), Fin (- 12)]\<rparr>)
           = Inr \<lparr>shape = [1, 1, 1], elems = [NaN]\<rparr>"
    using sat c2_nonzero neg eps_small(1)
    by (simp add: TruncNormalEntMap_forward_def Let_def reduce_dim1_def channel_def t_map_def
          t_zip_def compute_alpha_def compute_pdf_def compute_cdf_def saturating_simps
          fmean_def fstd_def fsum_def fsub_def signed_inf_def upt_small)
  have t: "is_finite
        (truncated_entropy saturating (Fin 1) (Fin 11)
           (f_add saturating (f_sub saturating (Fin 1) (normal_cdf saturating (Fin 11))) (Fin eps)))"
    unfolding c using neg eps_small(1)
    by (simp add: truncated_entropy_def normal_pdf_def saturating_simps fsub_def)
  show ?thesis using f m s a c t by (intro conjI)
qed

text \<open>
  In the idealised arithmetic, on one pixel with the channel values \<open>-1\<close> and \<open>1\<close>: the mean
  is \<open>0\<close>, the standard deviation \<open>sqrt 2\<close>, \<open>alpha = 0\<close> and \<open>Phi alpha = 1/2\<close>. The function
  returns \<open>log (c3 * sqrt 2 * (1/2 - \<epsilon>))\<close>; the entropy with the survival term
  \<open>1 - Phi alpha + \<epsilon>\<close> is \<open>log (c3 * sqrt 2 * (1/2 + \<epsilon>))\<close>, another number.
\<close>

lemma TruncNormalEntMap_survival_term:
  "TruncNormalEntMap_forward exact (DTensor \<lparr>shape = [1, 2, 1, 1], elems = [Fin (- 1), Fin 1]\<rparr>)
     = Inr \<lparr>shape = [1, 1, 1], elems = [Fin (ln (c3 * sqrt 2 * (1 / 2 - eps)))]\<rparr>
   \<and> fmean [Fin (- 1), Fin 1] = Fin 0 \<and> fstd [Fin (- 1), Fin 1] = Fin (sqrt 2)
   \<and> truncation_point exact (Fin 0) (Fin (sqrt 2)) = Fin 0
   \<and> truncated_entropy exact (Fin (sqrt 2)) (Fin 0)
        (fadd (fsub (Fin 1) (normal_cdf exact (Fin 0))) (Fin eps))
       = Fin (ln (c3 * sqrt 2 * (1 / 2 + eps)))
   \<and> ln (c3 * sqrt 2 * (1 / 2 - eps)) \<noteq> ln (c3 * sqrt 2 * (1 / 2 + eps))"
proof -
  have p: "0 < c3 * sqrt 2 * (1 / 2 - eps)" using c3_pos eps_small(3) by simp
  have q: "0 < c3 * sqrt 2 * (1 / 2 + eps)" using c3_pos eps_small(1) by (simp add: add_pos_pos)
  have "c3 * sqrt 2 * (1 / 2 - eps) \<noteq> c3 * sqrt 2 * (1 / 2 + eps)"
    using c3_pos eps_small(1) by simp
  then have ne: "ln (c3 * sqrt 2 * (1 / 2 - eps)) \<noteq> ln (c3 * sqrt 2 * (1 / 2 + eps))"
    using p q by (simp only: ln_inj_iff not_False_eq_True)
  have m: "fmean [Fin (- 1), Fin 1] = Fin 0" by (simp add: fmean_def fsum_def)
  have s: "fstd [Fin (- 1), Fin 1] = Fin (sqrt 2)"
    by (simp add: fstd_def fmean_def fsum_def fsub_def)
  have a: "truncation_point exact (Fin 0) (Fin (sqrt 2)) = Fin 0"
    by (simp add: truncation_point_def exact_simps fsub_def)
  have c: "TruncNormalEntMap_forward exact
             (DTensor \<lparr>shape = [1, 2, 1, 1], elems = [Fin (- 1), Fin 1]\<rparr>)
           = Inr \<lparr>shape = [1, 1, 1], elems = [Fin (ln (c3 * sqrt 2 * (1 / 2 - eps)))]\<rparr>"
    using p c3_pos c2_nonzero eps_small(2)
    by (simp add: TruncNormalEntMap_forward_def Let_def reduce_dim1_def channel_def t_map_def
          t_zip_def compute_alpha_def compute_pdf_def compute_cdf_def exact_simps
          fmean_def fstd_def fsum_def fsub_def signed_inf_def upt_small erf_zero)
  have t: "truncated_entropy exact (Fin (sqrt 2)) (Fin 0)
             (fadd (fsub (Fin 1) (normal_cdf exact (Fin 0))) (Fin eps))
           = Fin (ln (c3 * sqrt 2 * (1 / 2 + eps)))"
    using q c3_pos c2_nonzero eps_small(1)
    by (simp add: truncated_entropy_def normal_cdf_def normal_pdf_def exact_simps fsub_def
          signed_inf_def erf_zero)
  show ?thesis using c m s a t ne by (intro conjI)
qed

end
